theory Spec2Isabelle
  imports Complex_Main "HOL-Library.FSet"
begin

section \<open>JavaScript values and string helpers\<close>

text \<open>
  Strings are byte strings; the helpers below cover the ASCII range, which is where the
  role names, the status names and the digits of the confidence field live. Numbers are
  exact rationals: the rounding of IEEE doubles is not modelled.
\<close>

definition lowerChar :: "char \<Rightarrow> char" where
  "lowerChar c =
     (case map_of (zip ''ABCDEFGHIJKLMNOPQRSTUVWXYZ'' ''abcdefghijklmnopqrstuvwxyz'') c of
        Some l \<Rightarrow> l
      | None \<Rightarrow> c)"

definition toLowerCase :: "string \<Rightarrow> string" where
  "toLowerCase s = map lowerChar s"

text \<open>
  A JavaScript number as the parsing functions return it: \<open>NaN\<close>, a finite value or
  an infinity.
\<close>

datatype jsnum = NaN | Fin rat | PosInf | NegInf

definition isWhiteSpace :: "char \<Rightarrow> bool" where
  "isWhiteSpace c \<longleftrightarrow> c \<in> set [CHR 0x09, CHR 0x0A, CHR 0x0B, CHR 0x0C, CHR 0x0D, CHR '' '']"

definition isDigit :: "char \<Rightarrow> bool" where
  "isDigit c \<longleftrightarrow> c \<in> set ''0123456789''"

definition digitVal :: "char \<Rightarrow> nat" where
  "digitVal c = (case map_of (zip ''0123456789'' [0, 1, 2, 3, 4, 5, 6, 7, 8, 9]) c of
                   Some d \<Rightarrow> d | None \<Rightarrow> 0)"

definition digitsVal :: "string \<Rightarrow> nat" where
  "digitsVal ds = foldl (\<lambda>a c. 10 * a + digitVal c) 0 ds"

definition trim :: "string \<Rightarrow> string" where
  "trim s = rev (dropWhile isWhiteSpace (rev (dropWhile isWhiteSpace s)))"

text \<open>
  \<open>parseInt(s, 10)\<close> and \<open>parseFloat(s)\<close>: leading white space is skipped, an
  optional sign is read, and the longest prefix that is a number is converted; \<open>NaN\<close>
  when there is none.
\<close>

definition stripSign :: "string \<Rightarrow> bool \<times> string" where
  "stripSign s =
     (if take 1 s = ''-'' then (True, drop 1 s)
      else if take 1 s = ''+'' then (False, drop 1 s)
      else (False, s))"

definition parseInt :: "string \<Rightarrow> jsnum" where
  "parseInt string =
     (let (neg, s) = stripSign (dropWhile isWhiteSpace string);
          z = takeWhile isDigit s
      in if z = [] then NaN
         else Fin (if neg then - of_nat (digitsVal z) else of_nat (digitsVal z)))"

definition exponentPart :: "string \<Rightarrow> int" where
  "exponentPart s =
     (if take 1 s = ''e'' \<or> take 1 s = ''E'' then
        (let (neg, t) = stripSign (drop 1 s); ds = takeWhile isDigit t
         in if ds = [] then 0 else if neg then - int (digitsVal ds) else int (digitsVal ds))
      else 0)"

definition pow10 :: "int \<Rightarrow> rat" where
  "pow10 e = (if 0 \<le> e then 10 ^ nat e else 1 / 10 ^ nat (- e))"

definition parseFloat :: "string \<Rightarrow> jsnum" where
  "parseFloat string =
     (let (neg, s) = stripSign (dropWhile isWhiteSpace string)
      in if take 8 s = ''Infinity'' then (if neg then NegInf else PosInf)
         else
           (let ip = takeWhile isDigit s;
                r1 = dropWhile isDigit s;
                hasDot = (take 1 r1 = ''.'');
                fp = (if hasDot then takeWhile isDigit (drop 1 r1) else []);
                r2 = (if hasDot then dropWhile isDigit (drop 1 r1) else r1)
            in if ip = [] \<and> fp = [] then NaN
               else
                 (let m = of_nat (digitsVal (ip @ fp)) / 10 ^ length fp * pow10 (exponentPart r2)
                  in Fin (if neg then - m else m))))"

definition isNaN :: "jsnum \<Rightarrow> bool" where
  "isNaN n \<longleftrightarrow> n = NaN"

fun jsLess :: "jsnum \<Rightarrow> rat \<Rightarrow> bool" where
  "jsLess NaN y = False"
| "jsLess (Fin x) y = (x < y)"
| "jsLess PosInf y = False"
| "jsLess NegInf y = True"

fun jsGreater :: "jsnum \<Rightarrow> rat \<Rightarrow> bool" where
  "jsGreater NaN y = False"
| "jsGreater (Fin x) y = (x > y)"
| "jsGreater PosInf y = True"
| "jsGreater NegInf y = False"

section \<open>Role resolution: login.tsx (src/unnamed/part_001) and usersScreen.tsx\<close>

text \<open>
  The \<open>users\<close> document as the screens read it: an optional \<open>role\<close> string and the
  two legacy flags. A flag is compared with \<open>=== true\<close>, so a missing flag and a flag
  that is not the boolean \<open>true\<close> behave alike; \<open>None\<close> stands for both.
\<close>

record userData =
  role :: "string option"
  isAdmin :: "bool option"
  isExpert :: "bool option"

text \<open>\<open>(userData.role || '').toString().toLowerCase()\<close>, and \<open>userData.role?.toLowerCase() || ''\<close>.\<close>

definition roleStr :: "userData \<Rightarrow> string" where
  "roleStr userData = (case role userData of None \<Rightarrow> [] | Some r \<Rightarrow> toLowerCase r)"

definition userIsAdmin :: "userData \<Rightarrow> bool" where
  "userIsAdmin userData \<longleftrightarrow> isAdmin userData = Some True \<or> roleStr userData = ''admin''"

definition userIsExpert :: "userData \<Rightarrow> bool" where
  "userIsExpert userData \<longleftrightarrow> isExpert userData = Some True \<or> roleStr userData = ''expert''"

text \<open>
  \<open>handleLogin\<close> after the sign-in and the profile read have succeeded: the home screen
  the user is routed to.
\<close>

definition handleLogin :: "userData \<Rightarrow> string" where
  "handleLogin userData =
     (if userIsAdmin userData then ''./adminHomeScreen''
      else if userIsExpert userData then ''./expertHomeScreen''
      else ''./volunteerHomeScreen'')"

text \<open>
  \<open>loadUsers\<close>: the admins are filtered out, each remaining user gets the
  \<open>isExpert\<close> flag the list shows and the number of recordings the user owns
  (\<open>submissionCount\<close>, the size of the query result), and the rows are sorted by that
  number, highest first; the sort is stable. The name fields, \<open>isPendingExpert\<close> and
  the random avatar colour are copied into the row as they are and are left out here.
\<close>

definition loadUsers ::
  "(string \<times> userData) list \<Rightarrow> (string \<Rightarrow> nat) \<Rightarrow> (string \<times> bool \<times> nat) list" where
  "loadUsers docs submissionCount =
     sort_key (\<lambda>(uid, e, n). - int n)
       (map (\<lambda>(uid, userData). (uid, userIsExpert userData, submissionCount uid))
          (filter (\<lambda>(uid, userData). \<not> userIsAdmin userData) docs))"

section \<open>Confidence normalisation: toPercent in predictionScreen.tsx\<close>

definition toPercent :: "rat \<Rightarrow> rat" where
  "toPercent confMaybe01 = (if confMaybe01 \<le> 1 then confMaybe01 * 100 else confMaybe01)"

section \<open>The document store (Firestore)\<close>

text \<open>
  A document is a map from field names to values, a collection a map from document ids
  to documents. \<open>updateDoc\<close> overwrites the given fields of an existing document and
  leaves every other field as it is; it fails on a missing document, and the backend can
  refuse it (\<open>accepted = False\<close>), which the caller sees as a rejected promise.
\<close>

datatype fsval =
    FStr string
  | FNum rat
  | FBool bool
  | FNull
  | FTimestamp int
  | FServerTimestamp
  | FList "fsval list"
  | FMap "(string \<times> fsval) list"

type_synonym document = "string \<rightharpoonup> fsval"
type_synonym store = "string \<rightharpoonup> document"

datatype ioError = NotFound | Unavailable

definition updateDoc :: "bool \<Rightarrow> store \<Rightarrow> string \<Rightarrow> document \<Rightarrow> ioError + store" where
  "updateDoc accepted db ref updates =
     (if \<not> accepted then Inl Unavailable
      else case db ref of
             None \<Rightarrow> Inl NotFound
           | Some d \<Rightarrow> Inr (db(ref \<mapsto> d ++ updates)))"

text \<open>
  Field reads. Outside \<open>status\<close>, which is passed on as it is stored, documents are
  taken to be well typed: a field read as a string holds a string, and a field of
  another type is read like a missing one. \<open>orStr\<close> is \<open>a || b\<close> on strings (the
  empty string is falsy), \<open>coalesce\<close> is \<open>a ?? b\<close>.
\<close>

definition strField :: "document \<Rightarrow> string \<Rightarrow> string option" where
  "strField d k = (case d k of Some (FStr s) \<Rightarrow> Some s | _ \<Rightarrow> None)"

definition numField :: "document \<Rightarrow> string \<Rightarrow> rat option" where
  "numField d k = (case d k of Some (FNum x) \<Rightarrow> Some x | _ \<Rightarrow> None)"

definition subField :: "document \<Rightarrow> string \<Rightarrow> string \<Rightarrow> fsval option" where
  "subField d k j = (case d k of Some (FMap kvs) \<Rightarrow> map_of kvs j | _ \<Rightarrow> None)"

definition subStr :: "document \<Rightarrow> string \<Rightarrow> string \<Rightarrow> string option" where
  "subStr d k j = (case subField d k j of Some (FStr s) \<Rightarrow> Some s | _ \<Rightarrow> None)"

definition subNum :: "document \<Rightarrow> string \<Rightarrow> string \<Rightarrow> rat" where
  "subNum d k j = (case subField d k j of Some (FNum x) \<Rightarrow> x | _ \<Rightarrow> 0)"

definition orStr :: "string option \<Rightarrow> string \<Rightarrow> string" where
  "orStr a b = (case a of Some s \<Rightarrow> (if s = [] then b else s) | None \<Rightarrow> b)"

definition coalesce :: "string option \<Rightarrow> string \<Rightarrow> string" where
  "coalesce a b = (case a of Some s \<Rightarrow> s | None \<Rightarrow> b)"

definition truthy :: "string option \<Rightarrow> string option" where
  "truthy a = (case a of Some s \<Rightarrow> (if s = [] then None else Some s) | None \<Rightarrow> None)"

definition mathRound :: "rat \<Rightarrow> int" where
  "mathRound x = \<lfloor>x + 1 / 2\<rfloor>"

section \<open>The projected recording: DataContext.tsx (src/unnamed/part_002)\<close>

text \<open>
  The \<open>Recording\<close> type of the data context and of the history and map screens,
  and \<open>parseRecording\<close>. \<open>status\<close> is \<open>data.status ?? 'pending_analysis'\<close>: any
  stored value other than \<open>null\<close> is passed on, so the field holds a stored value.
  The locale-formatted display string \<open>timestampISO\<close> is left out; \<open>timestamp\<close>
  is in milliseconds, and \<open>now\<close> is the clock reading that \<open>new Date()\<close> supplies
  when the document has no timestamp.
\<close>

record recording =
  recordingId :: string
  userId :: string
  predictedSpecies :: string
  species :: string
  audioURL :: "string option"
  filePath :: "string option"
  location :: "rat \<times> rat"
  locationCity :: string
  status :: fsval
  timestamp :: "int option"
  confidence :: "jsnum option"
  volunteerConfidence :: "string option"
  "notes" :: string
  submitterName :: string
  recordingNumber :: "nat option"
  aiSpecies :: string
  aiConfidence :: "int option"

definition parseRecording :: "int \<Rightarrow> string \<Rightarrow> document \<Rightarrow> recording" where
  "parseRecording now docId data =
     \<lparr> recordingId = coalesce (strField data ''recordingId'') docId,
       userId = coalesce (strField data ''userId'') [],
       predictedSpecies = coalesce (strField data ''predictedSpecies'') [],
       species = coalesce (strField data ''species'') [],
       audioURL = Some (orStr (strField data ''audioURL'') (orStr (strField data ''audioUrl'') [])),
       filePath =
         (case truthy (strField data ''filePath'') of
            Some p \<Rightarrow> Some p
          | None \<Rightarrow>
              (case truthy (strField data ''fileName'') of
                 Some f \<Rightarrow>
                   Some (''uploaded_audios/'' @ coalesce (strField data ''userId'') ''undefined''
                         @ ''/'' @ f)
               | None \<Rightarrow> None)),
       location = (subNum data ''location'' ''lat'', subNum data ''location'' ''lng''),
       locationCity = orStr (strField data ''locationCity'') ''Unknown Location'',
       status =
         (case data ''status'' of
            None \<Rightarrow> FStr ''pending_analysis''
          | Some FNull \<Rightarrow> FStr ''pending_analysis''
          | Some v \<Rightarrow> v),
       timestamp = Some (case data ''timestamp'' of Some (FTimestamp ms) \<Rightarrow> ms | _ \<Rightarrow> now),
       confidence =
         (case numField data ''confidenceScore'' of
            Some c \<Rightarrow> Some (Fin (of_int (mathRound (c * 100))))
          | None \<Rightarrow> None),
       volunteerConfidence =
         (case truthy (strField data ''volunteerConfidenceLevel'') of
            Some v \<Rightarrow> Some v
          | None \<Rightarrow> truthy (strField data ''volunteerConfidence'')),
       notes = orStr (strField data ''notes'') [],
       submitterName =
         orStr (subStr data ''submitter'' ''displayName'')
           (orStr
              (Some (trim (orStr (subStr data ''submitter'' ''firstName'') [] @ '' ''
                           @ orStr (subStr data ''submitter'' ''lastName'') [])))
              ''Unknown''),
       recordingNumber = None,
       aiSpecies = orStr (strField data ''aiSpecies'') (orStr (strField data ''predictedSpecies'') []),
       aiConfidence =
         (case numField data ''aiConfidence'' of
            Some c \<Rightarrow> Some (mathRound (c * 100))
          | None \<Rightarrow>
              (case numField data ''confidenceScore'' of
                 Some c \<Rightarrow> Some (mathRound (c * 100))
               | None \<Rightarrow> None)) \<rparr>"

definition getStatusLabel :: "fsval \<Rightarrow> string" where
  "getStatusLabel s =
     (if s = FStr ''approved'' then ''Approved''
      else if s = FStr ''needs_review'' then ''Pending Review''
      else if s = FStr ''discarded'' then ''Discarded''
      else ''Processing'')"

text \<open>
  The status of a recording in the admin's user screen (\<open>loadUserRecordings\<close> in
  usersScreen.tsx): \<open>data.status || 'pending'\<close>, so a missing and a falsy stored value
  give \<open>pending\<close>; and the text of its status badge, which shows a status outside the
  three known ones as it is. The history and map screens build their rows with the
  expression of \<open>parseRecording\<close>, \<open>d.status ?? 'pending_analysis'\<close>.
\<close>

definition falsyVal :: "fsval \<Rightarrow> bool" where
  "falsyVal v \<longleftrightarrow> v = FNull \<or> v = FStr [] \<or> v = FNum 0 \<or> v = FBool False"

definition loadUserRecordings_status :: "document \<Rightarrow> fsval" where
  "loadUserRecordings_status data =
     (case data ''status'' of
        None \<Rightarrow> FStr ''pending''
      | Some v \<Rightarrow> (if falsyVal v then FStr ''pending'' else v))"

definition statusBadgeText :: "fsval \<Rightarrow> fsval" where
  "statusBadgeText s =
     (if s = FStr ''approved'' then FStr ''Approved''
      else if s = FStr ''needs_review'' then FStr ''Pending''
      else if s = FStr ''discarded'' then FStr ''Discarded''
      else s)"

section \<open>Edit and resubmit: HistoryScreen in predictionScreen.tsx\<close>

text \<open>
  The three edit fields of the history and map screens, and \<open>handleResubmit\<close>. It
  takes the collection, the screen's list of recordings and its \<open>editMode\<close>, and
  returns them with the alert it shows; \<open>accepted\<close> says whether the backend accepts
  the write. \<open>resubmitUpdates\<close> is the \<open>updates\<close> object passed to
  \<open>updateDoc\<close>.
\<close>

record editForm =
  editSpecies :: string
  editConfidence :: string
  editNotes :: string

datatype alert = Alert string string

fun jsGe :: "jsnum \<Rightarrow> rat \<Rightarrow> bool" where
  "jsGe NaN y = False"
| "jsGe (Fin x) y = (x \<ge> y)"
| "jsGe PosInf y = True"
| "jsGe NegInf y = False"

fun jsLe :: "jsnum \<Rightarrow> rat \<Rightarrow> bool" where
  "jsLe NaN y = False"
| "jsLe (Fin x) y = (x \<le> y)"
| "jsLe PosInf y = False"
| "jsLe NegInf y = True"

definition jsTruthyNum :: "jsnum \<Rightarrow> bool" where
  "jsTruthyNum n \<longleftrightarrow> n \<noteq> NaN \<and> n \<noteq> Fin 0"

definition resubmitUpdates :: "editForm \<Rightarrow> document" where
  "resubmitUpdates form =
     (let updates =
            [''species'' \<mapsto> FStr (editSpecies form),
             ''predictedSpecies'' \<mapsto> FStr (editSpecies form),
             ''notes'' \<mapsto> FStr (editNotes form),
             ''status'' \<mapsto> FStr ''needs_review'']
      in case parseInt (editConfidence form) of
           Fin n \<Rightarrow>
             (if editConfidence form \<noteq> [] then updates(''confidenceScore'' \<mapsto> FNum (n / 100))
              else updates)
         | _ \<Rightarrow> updates)"

definition handleResubmit ::
  "bool \<Rightarrow> store \<Rightarrow> recording list \<Rightarrow> string option \<Rightarrow> editForm \<Rightarrow> string
     \<Rightarrow> store \<times> recording list \<times> string option \<times> alert" where
  "handleResubmit accepted db recordings editMode form recId =
     (let confidenceNum = parseInt (editConfidence form)
      in if editConfidence form \<noteq> []
            \<and> (isNaN confidenceNum \<or> jsLess confidenceNum 0 \<or> jsGreater confidenceNum 100)
         then (db, recordings, editMode,
               Alert ''Invalid Confidence'' ''Please enter a number between 0 and 100'')
         else
           (case updateDoc accepted db recId (resubmitUpdates form) of
              Inl e \<Rightarrow>
                (db, recordings, editMode,
                 Alert ''Error'' ''Failed to update recording. Please try again.'')
            | Inr db' \<Rightarrow>
                (db',
                 map (\<lambda>rec.
                        if recordingId rec = recId
                        then rec\<lparr> species := editSpecies form,
                                  predictedSpecies := editSpecies form,
                                  notes := editNotes form,
                                  confidence :=
                                    (if jsTruthyNum confidenceNum then Some confidenceNum
                                     else confidence rec),
                                  status := FStr ''needs_review'' \<rparr>
                        else rec)
                   recordings,
                 None,
                 Alert ''Success'' ''Recording updated and resubmitted for review'')))"

section \<open>Map view, filter and save edits: MapHistoryScreen in register.tsx\<close>

text \<open>
  \<open>endOfDay.setHours(23, 59, 59, 999)\<close> in a time zone \<open>tz\<close> milliseconds east of
  UTC.
\<close>

definition endOfDay :: "int \<Rightarrow> int \<Rightarrow> int" where
  "endOfDay tz d = (d + tz) - (d + tz) mod 86400000 + 86399999 - tz"

definition filteredRecordings ::
  "int \<Rightarrow> recording list \<Rightarrow> string fset \<Rightarrow> int option \<Rightarrow> int option \<Rightarrow> recording list" where
  "filteredRecordings tz recordings selectedSpecies startDate endDate =
     filter
       (\<lambda>rec.
          if fcard selectedSpecies > 0 \<and> \<not> predictedSpecies rec |\<in>| selectedSpecies then False
          else if (case (startDate, timestamp rec) of
                     (Some sd, Some t) \<Rightarrow> t < sd
                   | _ \<Rightarrow> False) then False
          else if (case (endDate, timestamp rec) of
                     (Some ed, Some t) \<Rightarrow> t > endOfDay tz ed
                   | _ \<Rightarrow> False) then False
          else True)
       recordings"

text \<open>
  \<open>handleSaveEdits\<close>, on the collection, the expanded recording and the screen's
  \<open>editMode\<close>; \<open>saveEditsUpdates\<close> is its \<open>updates\<close> object.
\<close>

definition saveEditsUpdates :: "editForm \<Rightarrow> document" where
  "saveEditsUpdates form =
     (let updates = [''species'' \<mapsto> FStr (editSpecies form), ''notes'' \<mapsto> FStr (editNotes form)];
          confidenceNum = parseFloat (editConfidence form)
      in case confidenceNum of
           Fin n \<Rightarrow>
             (if \<not> isNaN confidenceNum \<and> jsGe confidenceNum 0 \<and> jsLe confidenceNum 100
              then updates(''confidenceScore'' \<mapsto> FNum (n / 100))
              else updates)
         | _ \<Rightarrow> updates)"

definition handleSaveEdits ::
  "bool \<Rightarrow> store \<Rightarrow> recording option \<Rightarrow> bool \<Rightarrow> editForm
     \<Rightarrow> store \<times> recording option \<times> bool \<times> alert option" where
  "handleSaveEdits accepted db expandedRecording editMode form =
     (case expandedRecording of
        None \<Rightarrow> (db, None, editMode, None)
      | Some rec \<Rightarrow>
          (case updateDoc accepted db (recordingId rec) (saveEditsUpdates form) of
             Inl e \<Rightarrow> (db, Some rec, editMode, Some (Alert ''Error'' ''Failed to save changes''))
           | Inr db' \<Rightarrow>
               (db',
                Some (rec\<lparr> species := editSpecies form,
                           predictedSpecies := editSpecies form,
                           confidence := Some (parseFloat (editConfidence form)),
                           notes := editNotes form \<rparr>),
                False,
                Some (Alert ''Success'' ''Changes saved successfully''))))"

text \<open>The value of a field of a stored document.\<close>

definition fieldOf :: "store \<Rightarrow> string \<Rightarrow> string \<Rightarrow> fsval option" where
  "fieldOf db ref k = (case db ref of None \<Rightarrow> None | Some d \<Rightarrow> d k)"

text \<open>
  The specification's reading of "no species filter at all": only the date range is
  applied.
\<close>

definition spec_noSpeciesFilter ::
  "int \<Rightarrow> recording list \<Rightarrow> int option \<Rightarrow> int option \<Rightarrow> recording list" where
  "spec_noSpeciesFilter tz recordings startDate endDate =
     filter
       (\<lambda>rec.
          \<not> (case (startDate, timestamp rec) of (Some sd, Some t) \<Rightarrow> t < sd | _ \<Rightarrow> False)
          \<and> \<not> (case (endDate, timestamp rec) of
                  (Some ed, Some t) \<Rightarrow> t > endOfDay tz ed
                | _ \<Rightarrow> False))
       recordings"

section \<open>Submitting a recording: PredictionScreen in predictionScreen.tsx\<close>

text \<open>Decimal digits of a number, and the file helpers of the screen.\<close>

definition digitChar :: "nat \<Rightarrow> char" where
  "digitChar n = ''0123456789'' ! n"

fun showNat :: "nat \<Rightarrow> string" where
  "showNat n = (if n < 10 then [digitChar n] else showNat (n div 10) @ [digitChar (n mod 10)])"

declare showNat.simps [simp del]

definition endsWith :: "string \<Rightarrow> string \<Rightarrow> bool" where
  "endsWith s suf \<longleftrightarrow> length suf \<le> length s \<and> drop (length s - length suf) s = suf"

definition guessMime :: "string \<Rightarrow> string" where
  "guessMime uri =
     (let lower = toLowerCase uri
      in if endsWith lower ''.wav'' then ''audio/wav''
         else if endsWith lower ''.m4a'' then ''audio/m4a''
         else if endsWith lower ''.mp3'' then ''audio/mpeg''
         else if endsWith lower ''.aac'' then ''audio/aac''
         else ''application/octet-stream'')"

definition makeUniqueFileName :: "nat \<Rightarrow> nat \<Rightarrow> string \<Rightarrow> string" where
  "makeUniqueFileName dateNow rnd ext = ''rec-'' @ showNat dateNow @ ''-'' @ showNat rnd @ ext"

text \<open>
  The signed-in user, the state of the prediction screen, and what the outside world
  answers during one run of \<open>handleSubmit\<close>: a rejected promise is \<open>Inl\<close> with its
  message. \<open>storageBucket\<close> is the configured bucket name; \<open>if (!bucket)\<close> rejects a
  missing name and the empty one. The \<open>world\<close> is what the run can change: the \<open>recordings\<close> collection
  and the uploaded audio files. \<open>calls\<close> lists the requests a run makes, in order.
\<close>

record authUser =
  uid :: string
  displayName :: "string option"
  email :: "string option"

record predictionScreen =
  st_audioUri :: string
  st_lat :: "rat option"
  st_lon :: "rat option"
  st_predictedSpecies :: string
  st_notes :: string
  st_top3 :: "(string \<times> rat) list"
  st_role :: "string option"
  st_submitAsExpert :: bool
  st_volunteerConfidence :: string
  st_submitting :: bool
  st_hasSubmitted :: bool

record submitEnv =
  currentUser :: "authUser option"
  idToken :: "string + string"
  profile :: "document option"
  fileInfo :: "string + bool"
  storageBucket :: "string option"
  uploadResult :: "string + nat"
  dateNow :: nat
  randomMillion :: nat
  newDocId :: string
  nowIso :: string
  setDocError :: "string option"

record world =
  recordingsDb :: store
  uploadedFiles :: "string list"

datatype call =
    GetIdToken string
  | GetUserProfile string
  | GetInfo string
  | UploadAsync string string string
  | SetDoc string document

record submitResult =
  state_after :: predictionScreen
  world_after :: world
  calls :: "call list"
  alerts :: "alert list"

text \<open>
  The role effect of the screen: \<open>setRole(snap.data()?.role ?? 'volunteer')\<close>, and
  \<open>'volunteer'\<close> when the read fails; the role stays \<open>null\<close> when nobody is signed in.
\<close>

definition fetchRole :: "bool \<Rightarrow> string + document option \<Rightarrow> string option" where
  "fetchRole signedIn snap =
     (if \<not> signedIn then None
      else case snap of
             Inl err \<Rightarrow> Some ''volunteer''
           | Inr None \<Rightarrow> Some ''volunteer''
           | Inr (Some d) \<Rightarrow> Some (coalesce (strField d ''role'') ''volunteer''))"

definition top3Value :: "(string \<times> rat) list \<Rightarrow> fsval" where
  "top3Value ts = FList (map (\<lambda>(s, c). FMap [(''species'', FStr s), (''confidence'', FNum c)]) ts)"

definition normalizedTop3 :: "(string \<times> rat) list \<Rightarrow> (string \<times> rat) list" where
  "normalizedTop3 ts = map (\<lambda>(s, c). (s, if c > 1 then max 0 (min 1 (c / 100)) else c)) ts"

definition primaryConf01 :: "(string \<times> rat) list \<Rightarrow> rat" where
  "primaryConf01 ts = (case normalizedTop3 ts of [] \<Rightarrow> 0 | (s, c) # _ \<Rightarrow> c)"

definition profileFirstName :: "document option \<Rightarrow> string" where
  "profileFirstName p = (case p of None \<Rightarrow> [] | Some d \<Rightarrow> coalesce (strField d ''firstName'') [])"

definition profileLastName :: "document option \<Rightarrow> string" where
  "profileLastName p = (case p of None \<Rightarrow> [] | Some d \<Rightarrow> coalesce (strField d ''lastName'') [])"

definition submitDisplayName :: "document option \<Rightarrow> authUser \<Rightarrow> string" where
  "submitDisplayName p user =
     (case (case p of None \<Rightarrow> None | Some d \<Rightarrow> strField d ''displayName'') of
        Some n \<Rightarrow> n
      | None \<Rightarrow>
          (case displayName user of
             Some n \<Rightarrow> n
           | None \<Rightarrow> trim (profileFirstName p @ '' '' @ profileLastName p)))"

definition baseDoc ::
  "predictionScreen \<Rightarrow> authUser \<Rightarrow> document option \<Rightarrow> string \<Rightarrow> string \<Rightarrow> string \<Rightarrow> string
     \<Rightarrow> string \<Rightarrow> document" where
  "baseDoc st user p recId fname fpath ctype now =
     [''recordingId'' \<mapsto> FStr recId,
      ''createdBy'' \<mapsto> FStr (uid user),
      ''userId'' \<mapsto> FStr (uid user),
      ''predictedSpecies'' \<mapsto> FStr (st_predictedSpecies st),
      ''species'' \<mapsto> FStr [],
      ''confidenceScore'' \<mapsto> FNum (primaryConf01 (st_top3 st)),
      ''aiSpecies'' \<mapsto> FStr (st_predictedSpecies st),
      ''aiConfidence'' \<mapsto> FNum (primaryConf01 (st_top3 st)),
      ''top3'' \<mapsto> top3Value (st_top3 st),
      ''ai'' \<mapsto>
        FMap [(''species'', FStr (st_predictedSpecies st)),
              (''confidence'', FNum (primaryConf01 (st_top3 st))),
              (''top3'', top3Value (normalizedTop3 (st_top3 st)))],
      ''fileName'' \<mapsto> FStr fname,
      ''filePath'' \<mapsto> FStr fpath,
      ''contentType'' \<mapsto> FStr ctype,
      ''audioURL'' \<mapsto> FStr (''/get-audio/'' @ fname),
      ''notes'' \<mapsto> FStr (st_notes st),
      ''volunteerConfidenceLevel'' \<mapsto> FStr (st_volunteerConfidence st),
      ''location'' \<mapsto>
        FMap [(''lat'', FNum (case st_lat st of Some x \<Rightarrow> x | None \<Rightarrow> 0)),
              (''lng'', FNum (case st_lon st of Some x \<Rightarrow> x | None \<Rightarrow> 0))],
      ''history'' \<mapsto>
        FList [FMap [(''action'', FStr ''submitted''), (''actorId'', FStr (uid user)),
                     (''timestamp'', FStr now)]],
      ''timestamp'' \<mapsto> FServerTimestamp,
      ''timestamp_iso'' \<mapsto> FStr now,
      ''submitter'' \<mapsto>
        FMap [(''uid'', FStr (uid user)),
              (''displayName'', FStr (submitDisplayName p user)),
              (''firstName'', FStr (profileFirstName p)),
              (''lastName'', FStr (profileLastName p)),
              (''email'', FStr (case email user of Some e \<Rightarrow> e | None \<Rightarrow> []))]]"

definition selfApprove :: "predictionScreen \<Rightarrow> bool" where
  "selfApprove st \<longleftrightarrow>
     st_submitAsExpert st \<and> (st_role st = Some ''expert'' \<or> st_role st = Some ''admin'')"

definition recordingDoc ::
  "predictionScreen \<Rightarrow> authUser \<Rightarrow> document option \<Rightarrow> string \<Rightarrow> string \<Rightarrow> string \<Rightarrow> string
     \<Rightarrow> string \<Rightarrow> document" where
  "recordingDoc st user p recId fname fpath ctype now =
     (if selfApprove st
         then (baseDoc st user p recId fname fpath ctype now)
                (''status'' \<mapsto> FStr ''approved'',
                 ''expertReview'' \<mapsto>
                   FMap [(''species'', FStr (st_predictedSpecies st)),
                         (''confidence'', FNum (primaryConf01 (st_top3 st))),
                         (''reviewer'',
                          FMap [(''uid'', FStr (uid user)),
                                (''firstName'', FStr (profileFirstName p)),
                                (''lastName'', FStr (profileLastName p))]),
                         (''reviewedAt'', FServerTimestamp)])
         else (baseDoc st user p recId fname fpath ctype now)
                (''status'' \<mapsto> FStr ''needs_review''))"

definition submitContentType :: "predictionScreen \<Rightarrow> string" where
  "submitContentType st = guessMime (st_audioUri st)"

definition submitFileName :: "submitEnv \<Rightarrow> predictionScreen \<Rightarrow> string" where
  "submitFileName env st =
     (let contentType = submitContentType st;
          ext = (if contentType = ''audio/wav'' then ''.wav''
                 else if contentType = ''audio/m4a'' then ''.m4a''
                 else ''.mp3'')
      in makeUniqueFileName (dateNow env) (randomMillion env) ext)"

definition submitFilePath :: "submitEnv \<Rightarrow> predictionScreen \<Rightarrow> authUser \<Rightarrow> string" where
  "submitFilePath env st user = ''uploaded_audios/'' @ uid user @ ''/'' @ submitFileName env st"

definition submitDoc :: "submitEnv \<Rightarrow> predictionScreen \<Rightarrow> authUser \<Rightarrow> document" where
  "submitDoc env st user =
     recordingDoc st user (profile env) (newDocId env) (submitFileName env st)
       (submitFilePath env st user) (submitContentType st) (nowIso env)"

definition submitFailed :: "predictionScreen \<Rightarrow> world \<Rightarrow> call list \<Rightarrow> string \<Rightarrow> submitResult" where
  "submitFailed st w cs msg =
     \<lparr> state_after = st\<lparr>st_submitting := False\<rparr>, world_after = w, calls = cs,
       alerts = [Alert ''Submit failed'' msg] \<rparr>"

text \<open>
  \<open>handleSubmit\<close>: the guards, then the \<open>try\<close> block; every exit from the block
  clears \<open>submitting\<close> (the \<open>finally\<close>), and a thrown error becomes the
  \<open>Submit failed\<close> alert.
\<close>

definition handleSubmit :: "submitEnv \<Rightarrow> world \<Rightarrow> predictionScreen \<Rightarrow> submitResult" where
  "handleSubmit env w st =
     (if st_hasSubmitted st then
        \<lparr> state_after = st, world_after = w, calls = [],
          alerts = [Alert ''Recording already submitted''
                      ''This recording has already been submitted.''] \<rparr>
      else if st_submitting st then
        \<lparr> state_after = st, world_after = w, calls = [], alerts = [] \<rparr>
      else if st_volunteerConfidence st = [] then
        \<lparr> state_after = st, world_after = w, calls = [],
          alerts = [Alert ''Missing Confidence Level''
                      ''Please select your Volunteer Confidence Level (High, Medium, or Low).''] \<rparr>
      else if st_audioUri st = [] then
        \<lparr> state_after = st, world_after = w, calls = [],
          alerts = [Alert ''No recording'' ''Please record audio first.''] \<rparr>
      else
        (case currentUser env of
           None \<Rightarrow> submitFailed st w [] ''Not signed in. Please log in first.''
         | Some user \<Rightarrow>
             (case idToken env of
                Inl err \<Rightarrow> submitFailed st w [GetIdToken (uid user)] err
              | Inr token \<Rightarrow>
                  (let cs1 = [GetIdToken (uid user), GetUserProfile (uid user),
                              GetInfo (st_audioUri st)]
                   in case fileInfo env of
                        Inl err \<Rightarrow> submitFailed st w cs1 err
                      | Inr False \<Rightarrow>
                          \<lparr> state_after = st\<lparr>st_submitting := False\<rparr>, world_after = w,
                            calls = cs1,
                            alerts = [Alert ''Audio missing''
                              ''The recorded file is no longer available. Please re-record.''] \<rparr>
                      | Inr True \<Rightarrow>
                          (let contentType = submitContentType st;
                               fileName = submitFileName env st;
                               filePath = submitFilePath env st user
                           in case truthy (storageBucket env) of
                                None \<Rightarrow>
                                  submitFailed st w cs1 ''Missing Firebase storage bucket in config.''
                              | Some bucket \<Rightarrow>
                                  (let cs2 = cs1 @ [UploadAsync bucket filePath contentType]
                                   in case uploadResult env of
                                        Inl err \<Rightarrow> submitFailed st w cs2 err
                                      | Inr code \<Rightarrow>
                                          (if code < 200 \<or> code \<ge> 300 then
                                             submitFailed st w cs2
                                               (''Storage upload failed ('' @ showNat code @ '')'')
                                           else
                                             (let w1 = w\<lparr>uploadedFiles := uploadedFiles w @ [filePath]\<rparr>;
                                                  d = submitDoc env st user;
                                                  cs3 = cs2 @ [SetDoc (newDocId env) d]
                                              in case setDocError env of
                                                   Some err \<Rightarrow> submitFailed st w1 cs3 err
                                                 | None \<Rightarrow>
                                                     \<lparr> state_after =
                                                         st\<lparr>st_submitting := False,
                                                            st_hasSubmitted := True\<rparr>,
                                                       world_after =
                                                         w1\<lparr>recordingsDb :=
                                                              (recordingsDb w1)(newDocId env \<mapsto> d)\<rparr>,
                                                       calls = cs3,
                                                       alerts =
                                                         [if selfApprove st
                                                          then Alert ''Submitted''
                                                            ''Your recording was saved and approved as an expert submission.''
                                                          else Alert ''Submitted''
                                                            ''Your recording was saved'']
                                                     \<rparr>))))))))"

text \<open>Observations on a run: the documents it wrote, and the reviewer of a document.\<close>

fun setDocs :: "call list \<Rightarrow> (string \<times> document) list" where
  "setDocs [] = []"
| "setDocs (SetDoc ref d # cs) = (ref, d) # setDocs cs"
| "setDocs (c # cs) = setDocs cs"

definition reviewerUid :: "document \<Rightarrow> fsval option" where
  "reviewerUid d =
     (case d ''expertReview'' of
        Some (FMap kvs) \<Rightarrow>
          (case map_of kvs ''reviewer'' of Some (FMap r) \<Rightarrow> map_of r ''uid'' | _ \<Rightarrow> None)
      | _ \<Rightarrow> None)"

text \<open>
  The reviewer invariant of a stored recording: in \<open>approved\<close> or \<open>discarded\<close> it
  carries a reviewer identity.
\<close>

definition carriesReviewer :: "document \<Rightarrow> bool" where
  "carriesReviewer d \<longleftrightarrow>
     (d ''status'' = Some (FStr ''approved'') \<or> d ''status'' = Some (FStr ''discarded'')
        \<longrightarrow> reviewerUid d \<noteq> None)"

section \<open>Reverse geocoding: getCityFromCoords in predictionScreen.tsx and register.tsx\<close>

text \<open>
  The geocoder's answer to one request: the request or the decoding of its body throws
  (\<open>GeoFails\<close>), or a response arrives with its HTTP status and a decoded body whose
  \<open>address\<close> may be missing. The code never looks at the status (\<open>response.ok\<close> is
  not tested), so an error response with a JSON body is read like any other. \<open>toFixed3\<close> is
  \<open>x.toFixed(3)\<close> on the coordinate range: the nearest multiple of \<open>0.001\<close>, ties
  upwards in magnitude, with the sign of \<open>x\<close> in front.
\<close>

record address =
  city :: "string option"
  town :: "string option"
  village :: "string option"
  state :: "string option"

datatype geoReply = GeoFails | GeoData nat "address option"

definition toFixed3 :: "rat \<Rightarrow> string" where
  "toFixed3 x =
     (let n = nat \<lfloor>\<bar>x\<bar> * 1000 + 1 / 2\<rfloor>;
          m = n mod 1000;
          s = showNat (n div 1000) @ ''.''
              @ [digitChar (m div 100), digitChar (m div 10 mod 10), digitChar (m mod 10)]
      in if x < 0 then ''-'' @ s else s)"

definition cacheKey :: "rat \<Rightarrow> rat \<Rightarrow> string" where
  "cacheKey la lo = toFixed3 la @ '','' @ toFixed3 lo"

definition addressField :: "address option \<Rightarrow> (address \<Rightarrow> string option) \<Rightarrow> string option" where
  "addressField a f = (case a of None \<Rightarrow> None | Some ad \<Rightarrow> f ad)"

text \<open>
  The memoized function of the history and map screens, with the module's cache passed
  in and returned, and the number of requests the call issued. \<open>reply\<close> is what the
  geocoder would answer; it is consulted only on a cache miss.
\<close>

record geoResult =
  place :: string
  cache_after :: "string \<rightharpoonup> string"
  requests :: nat

definition getCityFromCoords ::
  "(string \<rightharpoonup> string) \<Rightarrow> rat \<Rightarrow> rat \<Rightarrow> geoReply \<Rightarrow> geoResult" where
  "getCityFromCoords geocodeCache la lo reply =
     (case truthy (geocodeCache (cacheKey la lo)) of
        Some hit \<Rightarrow> \<lparr> place = hit, cache_after = geocodeCache, requests = 0 \<rparr>
      | None \<Rightarrow>
          (case reply of
             GeoFails \<Rightarrow>
               \<lparr> place = ''Unknown Location'', cache_after = geocodeCache, requests = 1 \<rparr>
           | GeoData code a \<Rightarrow>
               (let c = orStr (addressField a city)
                          (orStr (addressField a town) (orStr (addressField a village) ''Unknown''));
                    s = orStr (addressField a state) [];
                    result = (if s \<noteq> [] then c @ '', '' @ s else c)
                in \<lparr> place = result,
                     cache_after = geocodeCache(cacheKey la lo \<mapsto> result),
                     requests = 1 \<rparr>)))"

text \<open>The function of the same name in the prediction screen: it has no cache.\<close>

definition getCityFromCoords_prediction :: "rat \<Rightarrow> rat \<Rightarrow> geoReply \<Rightarrow> string \<times> nat" where
  "getCityFromCoords_prediction la lo reply =
     (case reply of
        GeoFails \<Rightarrow> (''Unknown Location'', 1)
      | GeoData code a \<Rightarrow>
          (let c = orStr (addressField a city)
                     (orStr (addressField a town) (orStr (addressField a village) []));
               s = orStr (addressField a state) []
           in if c \<noteq> [] \<and> s \<noteq> [] then (c @ '', '' @ s, 1)
              else if c \<noteq> [] then (c, 1)
              else if s \<noteq> [] then (s, 1)
              else (''Unknown Location'', 1)))"

section \<open>Calling the predictor: callPredict in predictionScreen.tsx\<close>

text \<open>
  A server either never answers or answers after some milliseconds; the fetch is aborted
  by the 15 second timer. \<open>fetchAbortable\<close> returns the time the request took and
  its outcome. The base URL comes from the configuration module and is a parameter, as
  are the two random draws of the mock prediction.
\<close>

datatype httpBody = BadJson | Json document

datatype reply = NetworkError string | Http nat string httpBody

datatype server = Never | After nat reply

definition fetchAbortable :: "nat \<Rightarrow> server \<Rightarrow> nat \<times> (string + nat \<times> string \<times> httpBody)" where
  "fetchAbortable limit sv =
     (case sv of
        Never \<Rightarrow> (limit, Inl ''AbortError'')
      | After t r \<Rightarrow>
          (if t < limit
           then (t, case r of NetworkError m \<Rightarrow> Inl m | Http code txt b \<Rightarrow> Inr (code, txt, b))
           else (limit, Inl ''AbortError'')))"

definition isHttpUrl :: "string \<Rightarrow> bool" where
  "isHttpUrl s \<longleftrightarrow> take 7 (toLowerCase s) = ''http://'' \<or> take 8 (toLowerCase s) = ''https://''"

record predResult =
  pr_species :: "fsval option"
  pr_confidence :: rat
  pr_top3 :: "fsval list"

definition parsePrediction :: "document \<Rightarrow> predResult" where
  "parsePrediction data =
     \<lparr> pr_species =
         (case data ''species'' of
            None \<Rightarrow> data ''name''
          | Some FNull \<Rightarrow> data ''name''
          | Some v \<Rightarrow> Some v),
       pr_confidence = (case numField data ''confidence'' of Some c \<Rightarrow> c | None \<Rightarrow> 0),
       pr_top3 = (case data ''top3'' of Some (FList xs) \<Rightarrow> xs | _ \<Rightarrow> []) \<rparr>"

fun tryEndpoints :: "(string \<Rightarrow> server) \<Rightarrow> string list \<Rightarrow> nat list \<times> predResult option" where
  "tryEndpoints net [] = ([], None)"
| "tryEndpoints net (url # urls) =
     (if \<not> isHttpUrl url then tryEndpoints net urls
      else
        (case fetchAbortable 15000 (net url) of
           (t, Inr (code, txt, Json data)) \<Rightarrow>
             (if 200 \<le> code \<and> code < 300 then ([t], Some (parsePrediction data))
              else (t # fst (tryEndpoints net urls), snd (tryEndpoints net urls)))
         | (t, _) \<Rightarrow> (t # fst (tryEndpoints net urls), snd (tryEndpoints net urls))))"

definition mockSpecies :: "string list" where
  "mockSpecies = [''Bullfrog'', ''Green Frog'', ''American Toad'', ''Wood Frog'',
                  ''Northern Spring Peeper'']"

definition nthOpt :: "'a list \<Rightarrow> int \<Rightarrow> 'a option" where
  "nthOpt xs i = (if 0 \<le> i \<and> i < int (length xs) then Some (xs ! nat i) else None)"

fun indexOf :: "string list \<Rightarrow> string option \<Rightarrow> int" where
  "indexOf [] x = - 1"
| "indexOf (y # ys) x =
     (if x = Some y then 0 else (if indexOf ys x < 0 then - 1 else indexOf ys x + 1))"

definition speciesValue :: "string option \<Rightarrow> fsval option" where
  "speciesValue s = map_option FStr s"

definition topItem :: "string option \<Rightarrow> rat \<Rightarrow> fsval" where
  "topItem s c =
     FMap ((case s of None \<Rightarrow> [] | Some n \<Rightarrow> [(''species'', FStr n)]) @ [(''confidence'', FNum c)])"

definition mockPrediction :: "rat \<Rightarrow> rat \<Rightarrow> predResult" where
  "mockPrediction random1 random2 =
     (let randomSpecies = nthOpt mockSpecies \<lfloor>random1 * of_nat (length mockSpecies)\<rfloor>;
          mockConfidence = 75 / 100 + random2 * (2 / 10)
      in \<lparr> pr_species = speciesValue randomSpecies,
           pr_confidence = mockConfidence,
           pr_top3 =
             [topItem randomSpecies mockConfidence,
              topItem (nthOpt mockSpecies
                         ((indexOf mockSpecies randomSpecies + 1) mod int (length mockSpecies)))
                (mockConfidence * (6 / 10)),
              topItem (nthOpt mockSpecies
                         ((indexOf mockSpecies randomSpecies + 2) mod int (length mockSpecies)))
                (mockConfidence * (3 / 10))] \<rparr>)"

record predictOutcome =
  prediction :: predResult
  fetchTimes :: "nat list"
  predictAlerts :: "alert list"

definition serverUnavailable :: alert where
  "serverUnavailable =
     Alert ''Server Unavailable''
       (''Could not connect to prediction server. Using mock prediction for testing.''
        @ [CHR 0x0A, CHR 0x0A]
        @ ''To fix: Make sure your backend server is running and your phone is on the same network.'')"

definition endpoints :: "string \<Rightarrow> string list" where
  "endpoints apiBase = [apiBase @ ''/predict'', apiBase @ ''/ml/predict'']"

definition callPredict :: "string \<Rightarrow> (string \<Rightarrow> server) \<Rightarrow> rat \<Rightarrow> rat \<Rightarrow> predictOutcome" where
  "callPredict apiBase net random1 random2 =
     (case tryEndpoints net (endpoints apiBase) of
        (ts, Some p) \<Rightarrow> \<lparr> prediction = p, fetchTimes = ts, predictAlerts = [] \<rparr>
      | (ts, None) \<Rightarrow>
          \<lparr> prediction = mockPrediction random1 random2, fetchTimes = ts,
            predictAlerts = [serverUnavailable] \<rparr>)"

definition endpointFails :: "(string \<Rightarrow> server) \<Rightarrow> string \<Rightarrow> bool" where
  "endpointFails net url \<longleftrightarrow>
     \<not> isHttpUrl url
     \<or> (case fetchAbortable 15000 (net url) of
          (t, Inr (code, txt, Json data)) \<Rightarrow> \<not> (200 \<le> code \<and> code < 300)
        | (t, _) \<Rightarrow> True)"

section \<open>Example data\<close>

definition exampleRecording :: "string \<Rightarrow> string \<Rightarrow> int \<Rightarrow> recording" where
  "exampleRecording rid sp t =
     \<lparr> recordingId = rid, userId = ''u1'', predictedSpecies = sp, species = [],
       audioURL = None, filePath = None, location = (0, 0), locationCity = ''Unknown Location'',
       status = FStr ''needs_review'', timestamp = Some t, confidence = None,
       volunteerConfidence = None, notes = [], submitterName = ''Unknown'',
       recordingNumber = None, aiSpecies = sp, aiConfidence = None \<rparr>"

definition approvedDoc :: document where
  "approvedDoc =
     [''recordingId'' \<mapsto> FStr ''r1'',
      ''userId'' \<mapsto> FStr ''u1'',
      ''predictedSpecies'' \<mapsto> FStr ''Bullfrog'',
      ''species'' \<mapsto> FStr [],
      ''confidenceScore'' \<mapsto> FNum (82 / 100),
      ''notes'' \<mapsto> FStr [],
      ''status'' \<mapsto> FStr ''approved'',
      ''history'' \<mapsto>
        FList [FMap [(''action'', FStr ''submitted''), (''actorId'', FStr ''u1''),
                     (''timestamp'', FStr ''2025-01-01T00:00:00.000Z'')]],
      ''expertReview'' \<mapsto>
        FMap [(''species'', FStr ''Bullfrog''), (''confidence'', FNum (82 / 100)),
              (''reviewer'', FMap [(''uid'', FStr ''e1'')]), (''reviewedAt'', FServerTimestamp)]]"

definition exampleForm :: editForm where
  "exampleForm = \<lparr> editSpecies = ''Wood Frog'', editConfidence = ''60'', editNotes = ''heard twice'' \<rparr>"

definition expertEnv :: submitEnv where
  "expertEnv =
     \<lparr> currentUser = Some \<lparr> uid = ''e1'', displayName = Some ''Eva'', email = None \<rparr>,
       idToken = Inr ''token'',
       profile = Some [''role'' \<mapsto> FStr ''expert'', ''firstName'' \<mapsto> FStr ''Eva''],
       fileInfo = Inr True,
       storageBucket = Some ''bucket'',
       uploadResult = Inr 200,
       dateNow = 1700000000000,
       randomMillion = 123456,
       newDocId = ''r7'',
       nowIso = ''2025-01-01T00:00:00.000Z'',
       setDocError = None \<rparr>"

definition draftState :: "string option \<Rightarrow> bool \<Rightarrow> predictionScreen" where
  "draftState r selfApproveOn =
     \<lparr> st_audioUri = ''file:///clip.m4a'', st_lat = Some 42, st_lon = None,
       st_predictedSpecies = ''Bullfrog'', st_notes = [], st_top3 = [(''Bullfrog'', 82)],
       st_role = r, st_submitAsExpert = selfApproveOn, st_volunteerConfidence = ''high'',
       st_submitting = False, st_hasSubmitted = False \<rparr>"

definition emptyWorld :: world where
  "emptyWorld = \<lparr> recordingsDb = Map.empty, uploadedFiles = [] \<rparr>"

definition serverError :: geoReply where
  "serverError = GeoData 500 None"

definition detroit :: geoReply where
  "detroit = GeoData 200 (Some \<lparr> city = Some ''Detroit'', town = None, village = None,
                              state = Some ''Michigan'' \<rparr>)"


definition latA :: rat where "latA = 423314 / 10000"
definition lonA :: rat where "lonA = - 830458 / 10000"
definition latB :: rat where "latB = 423312 / 10000"
definition lonB :: rat where "lonB = - 830461 / 10000"

definition deadNet :: "string \<Rightarrow> server" where
  "deadNet url = (if url = ''http://10.0.0.2:8000/predict'' then Never
                  else After 40 (Http 502 ''Bad Gateway'' BadJson))"

section \<open>Properties\<close>

lemmas js_eval = parseInt_def parseFloat_def stripSign_def isWhiteSpace_def isDigit_def
  digitVal_def digitsVal_def exponentPart_def pow10_def trim_def


subsection \<open>Role resolution\<close>

lemma toLowerCase_volunteer: "toLowerCase ''volunteer'' = ''volunteer''"
  by (simp add: toLowerCase_def lowerChar_def)

lemma toLowerCase_Expert: "toLowerCase ''Expert'' = ''expert''"
  by (simp add: toLowerCase_def lowerChar_def)

text \<open>
  C1, as stated, fails: a user whose role string is \<open>volunteer\<close> and whose legacy flag
  \<open>isAdmin\<close> is \<open>true\<close> is routed to the admin home screen and is dropped from the
  admin's user list as an admin; with \<open>isExpert = true\<close> instead, the user is routed to
  the expert home screen. The flag wins over the role string.
\<close>

theorem C1_enum_precedence_counterexample:
  "handleLogin \<lparr>role = Some ''volunteer'', isAdmin = Some True, isExpert = None\<rparr>
     = ''./adminHomeScreen''
   \<and> handleLogin \<lparr>role = Some ''volunteer'', isAdmin = None, isExpert = Some True\<rparr>
     = ''./expertHomeScreen''
   \<and> loadUsers [(''u1'', \<lparr>role = Some ''volunteer'', isAdmin = Some True, isExpert = None\<rparr>)]
       (\<lambda>uid. 3)
     = []"
  by (simp add: handleLogin_def loadUsers_def userIsAdmin_def userIsExpert_def roleStr_def
      toLowerCase_volunteer)

text \<open>
  C1, amended: the role string decides the resolved role exactly when no legacy flag is
  \<open>true\<close>. With both flags absent or false the user is routed by the (lower-cased) role
  string: \<open>admin\<close> to the admin home, \<open>expert\<close> to the expert home, anything else to
  the volunteer home. A \<open>true\<close> \<open>isAdmin\<close> flag routes to the admin home whatever the
  role string says, and a \<open>true\<close> \<open>isExpert\<close> flag routes to the expert home unless the
  user is an admin by flag or by role string.
\<close>

theorem C1_role_resolution:
  "(isAdmin u \<noteq> Some True \<and> isExpert u \<noteq> Some True \<longrightarrow>
      handleLogin u =
        (if roleStr u = ''admin'' then ''./adminHomeScreen''
         else if roleStr u = ''expert'' then ''./expertHomeScreen''
         else ''./volunteerHomeScreen''))
   \<and> (isAdmin u = Some True \<longrightarrow> handleLogin u = ''./adminHomeScreen'')
   \<and> (isExpert u = Some True \<and> isAdmin u \<noteq> Some True \<and> roleStr u \<noteq> ''admin'' \<longrightarrow>
        handleLogin u = ''./expertHomeScreen'')"
  by (simp add: handleLogin_def userIsAdmin_def userIsExpert_def)

theorem C1_role_resolution_witness:
  "handleLogin \<lparr>role = Some ''Expert'', isAdmin = Some False, isExpert = None\<rparr>
     = ''./expertHomeScreen''"
  using C1_role_resolution [of "\<lparr>role = Some ''Expert'', isAdmin = Some False, isExpert = None\<rparr>"]
  by (simp add: roleStr_def toLowerCase_Expert)

subsection \<open>Confidence normalisation\<close>

text \<open>
  C4, as stated, fails: \<open>0.005\<close> lies in \<open>[0, 100]\<close>, normalises to \<open>0.5\<close>, and
  \<open>0.5\<close> is at most \<open>1\<close>, so a second application scales it again to \<open>50\<close>.
\<close>

theorem C4_idempotent_counterexample:
  "(0::rat) \<le> 1 / 200 \<and> (1::rat) / 200 \<le> 100
   \<and> toPercent (1 / 200) = 1 / 2
   \<and> toPercent (toPercent (1 / 200)) = 50
   \<and> toPercent (toPercent (1 / 200)) \<noteq> toPercent (1 / 200)"
  by (simp add: toPercent_def)

text \<open>
  C4, amended: normalising twice equals normalising once exactly for \<open>x = 0\<close> and for
  \<open>x > 0.01\<close>; so on \<open>[0, 100]\<close> the normalisation is idempotent outside the interval
  \<open>(0, 0.01]\<close>, whose values are still at most \<open>1\<close> after the first scaling.
\<close>

theorem C4_idempotent_iff:
  "toPercent (toPercent x) = toPercent x \<longleftrightarrow> x = 0 \<or> 1 / 100 < x"
  by (auto simp: toPercent_def split: if_splits)

theorem C4_idempotent_iff_witness:
  "toPercent (toPercent (82 / 100)) = toPercent (82 / 100) \<and> toPercent (82 / 100) = 82"
  using C4_idempotent_iff [of "82 / 100"] by (simp add: toPercent_def)

subsection \<open>Species filter of the map view\<close>

text \<open>
  C9: with an empty species allow-set, \<open>filteredRecordings\<close> returns exactly what the
  date range alone lets through, for every collection, every date range and every time
  zone; and it returns what an allow-set holding every species of the collection
  returns: the empty set matches every species.
\<close>

theorem C9_empty_species_set:
  "filteredRecordings tz recordings {||} startDate endDate
     = spec_noSpeciesFilter tz recordings startDate endDate
   \<and> ((\<forall>rec \<in> set recordings. predictedSpecies rec |\<in>| allSpecies) \<longrightarrow>
        filteredRecordings tz recordings {||} startDate endDate
          = filteredRecordings tz recordings allSpecies startDate endDate)"
proof (intro conjI impI)
  show "filteredRecordings tz recordings {||} startDate endDate
     = spec_noSpeciesFilter tz recordings startDate endDate"
    unfolding filteredRecordings_def spec_noSpeciesFilter_def
    by (rule filter_cong) auto
next
  assume "\<forall>rec \<in> set recordings. predictedSpecies rec |\<in>| allSpecies"
  then show "filteredRecordings tz recordings {||} startDate endDate
          = filteredRecordings tz recordings allSpecies startDate endDate"
    unfolding filteredRecordings_def
    by (intro filter_cong) (simp_all add: fcard_fempty)
qed

theorem C9_empty_species_set_witness:
  "filteredRecordings 0 [exampleRecording ''r1'' ''Bullfrog'' 5, exampleRecording ''r2'' ''Wood Frog'' 7]
       {||} (Some 6) None
     = [exampleRecording ''r2'' ''Wood Frog'' 7]
   \<and> filteredRecordings 0 [exampleRecording ''r1'' ''Bullfrog'' 5, exampleRecording ''r2'' ''Wood Frog'' 7]
       {||} None None
     = filteredRecordings 0 [exampleRecording ''r1'' ''Bullfrog'' 5, exampleRecording ''r2'' ''Wood Frog'' 7]
       {|''Bullfrog'', ''Wood Frog''|} None None
   \<and> filteredRecordings 0 [exampleRecording ''r1'' ''Bullfrog'' 5, exampleRecording ''r2'' ''Wood Frog'' 7]
       {|''Bullfrog''|} None None
     = [exampleRecording ''r1'' ''Bullfrog'' 5]"
proof -
  let ?rs = "[exampleRecording ''r1'' ''Bullfrog'' 5, exampleRecording ''r2'' ''Wood Frog'' 7]"
  have a: "filteredRecordings 0 ?rs {||} (Some 6) None = [exampleRecording ''r2'' ''Wood Frog'' 7]"
    using C9_empty_species_set [of 0 ?rs "Some 6" None "{||}", THEN conjunct1]
    by (simp add: spec_noSpeciesFilter_def exampleRecording_def)
  have b: "filteredRecordings 0 ?rs {||} None None
      = filteredRecordings 0 ?rs {|''Bullfrog'', ''Wood Frog''|} None None"
    by (rule C9_empty_species_set [of 0 ?rs None None "{|''Bullfrog'', ''Wood Frog''|}", THEN conjunct2, THEN mp])
      (simp add: exampleRecording_def)
  have c: "filteredRecordings 0 ?rs {|''Bullfrog''|} None None = [exampleRecording ''r1'' ''Bullfrog'' 5]"
    by (simp add: filteredRecordings_def exampleRecording_def)
  from a b c show ?thesis by (intro conjI)
qed

subsection \<open>Edit and resubmit\<close>

lemma map_add_apply: "(m ++ n) k = (case n k of None \<Rightarrow> m k | Some v \<Rightarrow> Some v)"
  by (simp add: map_add_def)

lemma parseInt_empty: "parseInt [] = NaN"
  by (simp add: parseInt_def stripSign_def)

lemma parseInt_60: "parseInt ''60'' = Fin 60"
  by (simp add: js_eval)

lemma parseFloat_60: "parseFloat ''60'' = Fin 60"
  by (simp add: js_eval)

lemma resubmitUpdates_fields:
  "resubmitUpdates form ''status'' = Some (FStr ''needs_review'')"
  "resubmitUpdates form ''species'' = Some (FStr (editSpecies form))"
  "resubmitUpdates form ''predictedSpecies'' = Some (FStr (editSpecies form))"
  "resubmitUpdates form ''notes'' = Some (FStr (editNotes form))"
  "resubmitUpdates form ''confidenceScore''
     = (case parseInt (editConfidence form) of Fin n \<Rightarrow> Some (FNum (n / 100)) | _ \<Rightarrow> None)"
  by (auto simp: resubmitUpdates_def Let_def parseInt_empty split: jsnum.splits)

lemma resubmitUpdates_other:
  "k \<notin> {''species'', ''predictedSpecies'', ''notes'', ''status'', ''confidenceScore''}
     \<Longrightarrow> resubmitUpdates form k = None"
  by (simp add: resubmitUpdates_def Let_def split: jsnum.splits)

lemma handleResubmit_accepted:
  assumes "db recId = Some d" and "accepted"
    and "editConfidence form = []
         \<or> (case parseInt (editConfidence form) of Fin n \<Rightarrow> 0 \<le> n \<and> n \<le> 100 | _ \<Rightarrow> False)"
  shows "fst (handleResubmit accepted db recs editMode form recId)
           = db(recId \<mapsto> d ++ resubmitUpdates form)"
  using assms
  by (auto simp: handleResubmit_def Let_def updateDoc_def isNaN_def parseInt_empty
      split: jsnum.splits)

text \<open>
  C2, as stated, fails: resubmitting an approved recording that carries a one-entry
  history and an expert review resets the status, but the stored history is the same
  one-entry list and the review, with its reviewer, is still there.
\<close>

theorem C2_resubmit_counterexample:
  "(case fst (handleResubmit True [''r1'' \<mapsto> approvedDoc] [] None exampleForm ''r1'') ''r1'' of
      Some d' \<Rightarrow>
        d' ''status'' = Some (FStr ''needs_review'')
        \<and> d' ''history'' = approvedDoc ''history''
        \<and> d' ''history''
            = Some (FList [FMap [(''action'', FStr ''submitted''), (''actorId'', FStr ''u1''),
                                 (''timestamp'', FStr ''2025-01-01T00:00:00.000Z'')]])
        \<and> d' ''expertReview'' = approvedDoc ''expertReview''
        \<and> d' ''expertReview'' \<noteq> None
    | None \<Rightarrow> False)"
  by (simp add: handleResubmit_def Let_def updateDoc_def isNaN_def exampleForm_def parseInt_60
      resubmitUpdates_def approvedDoc_def)

text \<open>
  C2, amended: for every stored recording, whatever its prior status, an accepted
  edit-and-resubmit whose confidence field is empty or parses to a number from 0 to 100
  sets \<open>status\<close> to \<open>needs_review\<close>, overwrites \<open>species\<close>,
  \<open>predictedSpecies\<close> and \<open>notes\<close> from the edit form, overwrites
  \<open>confidenceScore\<close> with the entered number divided by 100 when one was entered (and
  keeps the stored one otherwise), and leaves every other field of the document as it
  was: in particular \<open>history\<close> and \<open>expertReview\<close>.
\<close>

theorem C2_resubmit:
  assumes "db recId = Some d" and "accepted"
    and "editConfidence form = []
         \<or> (case parseInt (editConfidence form) of Fin n \<Rightarrow> 0 \<le> n \<and> n \<le> 100 | _ \<Rightarrow> False)"
  shows "\<exists>d'. fst (handleResubmit accepted db recs editMode form recId) = db(recId \<mapsto> d')
           \<and> d' ''status'' = Some (FStr ''needs_review'')
           \<and> d' ''species'' = Some (FStr (editSpecies form))
           \<and> d' ''predictedSpecies'' = Some (FStr (editSpecies form))
           \<and> d' ''notes'' = Some (FStr (editNotes form))
           \<and> d' ''confidenceScore''
               = (case parseInt (editConfidence form) of
                    Fin n \<Rightarrow> Some (FNum (n / 100))
                  | _ \<Rightarrow> d ''confidenceScore'')
           \<and> (\<forall>k. k \<notin> {''species'', ''predictedSpecies'', ''notes'', ''status'', ''confidenceScore''}
                  \<longrightarrow> d' k = d k)
           \<and> d' ''history'' = d ''history''
           \<and> d' ''expertReview'' = d ''expertReview''"
proof (intro exI [of _ "d ++ resubmitUpdates form"] conjI allI impI)
  show "fst (handleResubmit accepted db recs editMode form recId)
          = db(recId \<mapsto> d ++ resubmitUpdates form)"
    using assms by (rule handleResubmit_accepted)
  show "(d ++ resubmitUpdates form) ''status'' = Some (FStr ''needs_review'')"
    by (simp add: map_add_apply resubmitUpdates_fields(1))
  show "(d ++ resubmitUpdates form) ''species'' = Some (FStr (editSpecies form))"
    by (simp add: map_add_apply resubmitUpdates_fields(2))
  show "(d ++ resubmitUpdates form) ''predictedSpecies'' = Some (FStr (editSpecies form))"
    by (simp add: map_add_apply resubmitUpdates_fields(3))
  show "(d ++ resubmitUpdates form) ''notes'' = Some (FStr (editNotes form))"
    by (simp add: map_add_apply resubmitUpdates_fields(4))
  show "(d ++ resubmitUpdates form) ''confidenceScore''
      = (case parseInt (editConfidence form) of Fin n \<Rightarrow> Some (FNum (n / 100))
         | _ \<Rightarrow> d ''confidenceScore'')"
    by (simp add: map_add_apply resubmitUpdates_fields(5) split: jsnum.splits)
  show "(d ++ resubmitUpdates form) k = d k"
    if "k \<notin> {''species'', ''predictedSpecies'', ''notes'', ''status'', ''confidenceScore''}" for k
    using that by (simp add: map_add_apply resubmitUpdates_other)
  show "(d ++ resubmitUpdates form) ''history'' = d ''history''"
    by (simp add: map_add_apply resubmitUpdates_other)
  show "(d ++ resubmitUpdates form) ''expertReview'' = d ''expertReview''"
    by (simp add: map_add_apply resubmitUpdates_other)
qed

theorem C2_resubmit_witness:
  "fieldOf (fst (handleResubmit True [''r1'' \<mapsto> approvedDoc] [] None exampleForm ''r1''))
       ''r1'' ''status'' = Some (FStr ''needs_review'')
   \<and> fieldOf (fst (handleResubmit True [''r1'' \<mapsto> approvedDoc] [] None exampleForm ''r1''))
       ''r1'' ''species'' = Some (FStr ''Wood Frog'')
   \<and> fieldOf (fst (handleResubmit True [''r1'' \<mapsto> approvedDoc] [] None exampleForm ''r1''))
       ''r1'' ''confidenceScore'' = Some (FNum (3 / 5))"
proof -
  let ?db = "[''r1'' \<mapsto> approvedDoc]"
  have "\<exists>d'. fst (handleResubmit True ?db [] None exampleForm ''r1'') = ?db(''r1'' \<mapsto> d')
           \<and> d' ''status'' = Some (FStr ''needs_review'')
           \<and> d' ''species'' = Some (FStr (editSpecies exampleForm))
           \<and> d' ''predictedSpecies'' = Some (FStr (editSpecies exampleForm))
           \<and> d' ''notes'' = Some (FStr (editNotes exampleForm))
           \<and> d' ''confidenceScore''
               = (case parseInt (editConfidence exampleForm) of
                    Fin n \<Rightarrow> Some (FNum (n / 100))
                  | _ \<Rightarrow> approvedDoc ''confidenceScore'')
           \<and> (\<forall>k. k \<notin> {''species'', ''predictedSpecies'', ''notes'', ''status'', ''confidenceScore''}
                  \<longrightarrow> d' k = approvedDoc k)
           \<and> d' ''history'' = approvedDoc ''history''
           \<and> d' ''expertReview'' = approvedDoc ''expertReview''"
    by (rule C2_resubmit) (simp_all add: exampleForm_def parseInt_60)
  then obtain d' where
    d1: "fst (handleResubmit True ?db [] None exampleForm ''r1'') = ?db(''r1'' \<mapsto> d')"
    and d2: "d' ''status'' = Some (FStr ''needs_review'')"
    and d3: "d' ''species'' = Some (FStr (editSpecies exampleForm))"
    and d4: "d' ''confidenceScore''
               = (case parseInt (editConfidence exampleForm) of
                    Fin n \<Rightarrow> Some (FNum (n / 100))
                  | _ \<Rightarrow> approvedDoc ''confidenceScore'')"
    by blast
  show ?thesis
    unfolding d1 by (simp add: fieldOf_def d2 d3 d4 exampleForm_def parseInt_60)
qed

subsection \<open>Save edits in the map view\<close>

lemma saveEditsUpdates_other:
  "k \<notin> {''species'', ''notes'', ''confidenceScore''} \<Longrightarrow> saveEditsUpdates form k = None"
  by (simp add: saveEditsUpdates_def Let_def split: jsnum.splits)

lemma saveEditsUpdates_fields:
  "saveEditsUpdates form ''species'' = Some (FStr (editSpecies form))"
  "saveEditsUpdates form ''notes'' = Some (FStr (editNotes form))"
  "saveEditsUpdates form ''confidenceScore''
     = (case parseFloat (editConfidence form) of
          Fin n \<Rightarrow> (if 0 \<le> n \<and> n \<le> 100 then Some (FNum (n / 100)) else None)
        | _ \<Rightarrow> None)"
  by (simp_all add: saveEditsUpdates_def Let_def isNaN_def split: jsnum.splits)

lemma handleSaveEdits_cases:
  "fst (handleSaveEdits accepted db expanded editMode form) =
     (case expanded of
        None \<Rightarrow> db
      | Some rec \<Rightarrow>
          (case db (recordingId rec) of
             None \<Rightarrow> db
           | Some d \<Rightarrow>
               (if accepted then db(recordingId rec \<mapsto> d ++ saveEditsUpdates form) else db)))"
  by (simp add: handleSaveEdits_def updateDoc_def split: option.splits)

lemma handleSaveEdits_frame:
  assumes "k \<notin> {''species'', ''notes'', ''confidenceScore''}"
  shows "fieldOf (fst (handleSaveEdits accepted db expanded editMode form)) ref k = fieldOf db ref k"
  using saveEditsUpdates_other [OF assms, of form]
  by (simp add: handleSaveEdits_cases fieldOf_def map_add_apply split: option.splits)

lemma handleSaveEdits_dom:
  "dom (fst (handleSaveEdits accepted db expanded editMode form)) = dom db"
  by (auto simp: handleSaveEdits_cases split: option.splits if_splits)

text \<open>
  C10: whatever the outcome, \<open>handleSaveEdits\<close> changes no field of any stored
  document other than \<open>species\<close>, \<open>notes\<close> and \<open>confidenceScore\<close>, so every
  \<open>status\<close> is what it was, and it creates and deletes no document. When the write is
  accepted, \<open>species\<close> and \<open>notes\<close> hold the edit form's values and
  \<open>confidenceScore\<close> holds the entered number divided by 100 when it parses to a number
  from 0 to 100, and the stored value otherwise. The resubmit of the history screen, on
  the same store, sets \<open>status\<close> to \<open>needs_review\<close>.
\<close>

theorem C10_saveEdits_frame:
  "(\<forall>ref k. k \<notin> {''species'', ''notes'', ''confidenceScore''} \<longrightarrow>
       fieldOf (fst (handleSaveEdits accepted db expanded editMode form)) ref k = fieldOf db ref k)
   \<and> (\<forall>ref. fieldOf (fst (handleSaveEdits accepted db expanded editMode form)) ref ''status''
              = fieldOf db ref ''status'')
   \<and> dom (fst (handleSaveEdits accepted db expanded editMode form)) = dom db
   \<and> (accepted \<and> expanded = Some rec \<and> db (recordingId rec) = Some d \<longrightarrow>
        (\<exists>d'. fst (handleSaveEdits accepted db expanded editMode form) = db(recordingId rec \<mapsto> d')
           \<and> d' ''species'' = Some (FStr (editSpecies form))
           \<and> d' ''notes'' = Some (FStr (editNotes form))
           \<and> d' ''confidenceScore''
               = (case parseFloat (editConfidence form) of
                    Fin n \<Rightarrow> (if 0 \<le> n \<and> n \<le> 100 then Some (FNum (n / 100))
                              else d ''confidenceScore'')
                  | _ \<Rightarrow> d ''confidenceScore'')
           \<and> d' ''status'' = d ''status''))
   \<and> (accepted \<and> db recId = Some d
        \<and> (editConfidence form = []
            \<or> (case parseInt (editConfidence form) of Fin n \<Rightarrow> 0 \<le> n \<and> n \<le> 100 | _ \<Rightarrow> False))
        \<longrightarrow> fieldOf (fst (handleResubmit accepted db recs histMode form recId)) recId ''status''
              = Some (FStr ''needs_review''))"
proof (intro conjI allI impI)
  fix ref k
  assume "k \<notin> {''species'', ''notes'', ''confidenceScore''}"
  then show "fieldOf (fst (handleSaveEdits accepted db expanded editMode form)) ref k = fieldOf db ref k"
    by (rule handleSaveEdits_frame)
next
  fix ref
  show "fieldOf (fst (handleSaveEdits accepted db expanded editMode form)) ref ''status''
          = fieldOf db ref ''status''"
    by (rule handleSaveEdits_frame) simp
next
  show "dom (fst (handleSaveEdits accepted db expanded editMode form)) = dom db"
    by (rule handleSaveEdits_dom)
next
  assume a: "accepted \<and> expanded = Some rec \<and> db (recordingId rec) = Some d"
  let ?d = "d ++ saveEditsUpdates form"
  have "fst (handleSaveEdits accepted db expanded editMode form) = db(recordingId rec \<mapsto> ?d)"
    using a by (simp add: handleSaveEdits_cases)
  moreover have "?d ''species'' = Some (FStr (editSpecies form))"
    by (simp add: map_add_apply saveEditsUpdates_fields(1))
  moreover have "?d ''notes'' = Some (FStr (editNotes form))"
    by (simp add: map_add_apply saveEditsUpdates_fields(2))
  moreover have "?d ''confidenceScore''
      = (case parseFloat (editConfidence form) of
           Fin n \<Rightarrow> (if 0 \<le> n \<and> n \<le> 100 then Some (FNum (n / 100)) else d ''confidenceScore'')
         | _ \<Rightarrow> d ''confidenceScore'')"
    by (simp add: map_add_apply saveEditsUpdates_fields(3) split: jsnum.splits)
  moreover have "?d ''status'' = d ''status''"
    by (simp add: map_add_apply saveEditsUpdates_other)
  ultimately show "\<exists>d'. fst (handleSaveEdits accepted db expanded editMode form)
        = db(recordingId rec \<mapsto> d')
      \<and> d' ''species'' = Some (FStr (editSpecies form))
      \<and> d' ''notes'' = Some (FStr (editNotes form))
      \<and> d' ''confidenceScore''
          = (case parseFloat (editConfidence form) of
               Fin n \<Rightarrow> (if 0 \<le> n \<and> n \<le> 100 then Some (FNum (n / 100))
                         else d ''confidenceScore'')
             | _ \<Rightarrow> d ''confidenceScore'')
      \<and> d' ''status'' = d ''status''"
    by (intro exI [of _ ?d] conjI)
next
  assume a: "accepted \<and> db recId = Some d
        \<and> (editConfidence form = []
            \<or> (case parseInt (editConfidence form) of Fin n \<Rightarrow> 0 \<le> n \<and> n \<le> 100 | _ \<Rightarrow> False))"
  then have "fst (handleResubmit accepted db recs histMode form recId)
      = db(recId \<mapsto> d ++ resubmitUpdates form)"
    by (intro handleResubmit_accepted) simp_all
  then show "fieldOf (fst (handleResubmit accepted db recs histMode form recId)) recId ''status''
      = Some (FStr ''needs_review'')"
    by (simp add: fieldOf_def map_add_apply resubmitUpdates_fields(1))
qed

theorem C10_saveEdits_frame_witness:
  "fieldOf (fst (handleSaveEdits True [''r1'' \<mapsto> approvedDoc]
                   (Some (exampleRecording ''r1'' ''Bullfrog'' 5)) True exampleForm))
       ''r1'' ''status'' = Some (FStr ''approved'')
   \<and> fieldOf (fst (handleSaveEdits True [''r1'' \<mapsto> approvedDoc]
                   (Some (exampleRecording ''r1'' ''Bullfrog'' 5)) True exampleForm))
       ''r1'' ''confidenceScore'' = Some (FNum (3 / 5))
   \<and> fieldOf (fst (handleResubmit True [''r1'' \<mapsto> approvedDoc] [] None exampleForm ''r1''))
       ''r1'' ''status'' = Some (FStr ''needs_review'')"
proof -
  let ?db = "[''r1'' \<mapsto> approvedDoc]"
  let ?rec = "exampleRecording ''r1'' ''Bullfrog'' 5"
  note t = C10_saveEdits_frame [of True ?db "Some ?rec" True exampleForm ?rec approvedDoc
      "''r1''" "[]" None]
  have rid: "recordingId ?rec = ''r1''"
    by (simp add: exampleRecording_def)
  have "fieldOf (fst (handleSaveEdits True ?db (Some ?rec) True exampleForm)) ''r1'' ''status''
      = fieldOf ?db ''r1'' ''status''"
    using t [THEN conjunct2, THEN conjunct1] by (rule spec)
  then have s1: "fieldOf (fst (handleSaveEdits True ?db (Some ?rec) True exampleForm)) ''r1'' ''status''
      = Some (FStr ''approved'')"
    by (simp add: fieldOf_def approvedDoc_def)
  have "\<exists>d'. fst (handleSaveEdits True ?db (Some ?rec) True exampleForm) = ?db(recordingId ?rec \<mapsto> d')
      \<and> d' ''species'' = Some (FStr (editSpecies exampleForm))
      \<and> d' ''notes'' = Some (FStr (editNotes exampleForm))
      \<and> d' ''confidenceScore''
          = (case parseFloat (editConfidence exampleForm) of
               Fin n \<Rightarrow> (if 0 \<le> n \<and> n \<le> 100 then Some (FNum (n / 100))
                         else approvedDoc ''confidenceScore'')
             | _ \<Rightarrow> approvedDoc ''confidenceScore'')
      \<and> d' ''status'' = approvedDoc ''status''"
    by (rule t [THEN conjunct2, THEN conjunct2, THEN conjunct2, THEN conjunct1, THEN mp])
      (simp add: rid)
  then obtain d' where
    d1: "fst (handleSaveEdits True ?db (Some ?rec) True exampleForm) = ?db(recordingId ?rec \<mapsto> d')"
    and d2: "d' ''confidenceScore''
          = (case parseFloat (editConfidence exampleForm) of
               Fin n \<Rightarrow> (if 0 \<le> n \<and> n \<le> 100 then Some (FNum (n / 100))
                         else approvedDoc ''confidenceScore'')
             | _ \<Rightarrow> approvedDoc ''confidenceScore'')"
    by blast
  have s2: "fieldOf (fst (handleSaveEdits True ?db (Some ?rec) True exampleForm)) ''r1''
      ''confidenceScore'' = Some (FNum (3 / 5))"
    unfolding d1 by (simp add: rid fieldOf_def d2 exampleForm_def parseFloat_60)
  have s3: "fieldOf (fst (handleResubmit True ?db [] None exampleForm ''r1'')) ''r1'' ''status''
      = Some (FStr ''needs_review'')"
    by (rule t [THEN conjunct2, THEN conjunct2, THEN conjunct2, THEN conjunct2, THEN mp])
      (simp add: exampleForm_def parseInt_60)
  from s1 s2 s3 show ?thesis by (intro conjI)
qed

subsection \<open>Submit and self-approve\<close>

lemma baseDoc_fields:
  "baseDoc st user p recId fname fpath ctype now ''userId'' = Some (FStr (uid user))"
  "baseDoc st user p recId fname fpath ctype now ''expertReview'' = None"
  "baseDoc st user p recId fname fpath ctype now ''status'' = None"
  by (simp_all add: baseDoc_def)

lemma recordingDoc_status:
  "recordingDoc st user p recId fname fpath ctype now ''status''
     = Some (FStr (if selfApprove st then ''approved'' else ''needs_review''))"
  by (simp add: recordingDoc_def)

lemma recordingDoc_userId:
  "recordingDoc st user p recId fname fpath ctype now ''userId'' = Some (FStr (uid user))"
  by (simp add: recordingDoc_def baseDoc_fields)

lemma recordingDoc_reviewer:
  "selfApprove st \<Longrightarrow>
     reviewerUid (recordingDoc st user p recId fname fpath ctype now) = Some (FStr (uid user))"
  by (simp add: recordingDoc_def reviewerUid_def)

lemma recordingDoc_no_review:
  "\<not> selfApprove st \<Longrightarrow> recordingDoc st user p recId fname fpath ctype now ''expertReview'' = None"
  by (simp add: recordingDoc_def baseDoc_fields)

lemma setDocs_append: "setDocs (xs @ ys) = setDocs xs @ setDocs ys"
  by (induction xs rule: setDocs.induct) simp_all

lemma handleSubmit_setDocs:
  "setDocs (calls (handleSubmit env w st)) =
     (case currentUser env of
        None \<Rightarrow> []
      | Some user \<Rightarrow>
          (if setDocs (calls (handleSubmit env w st)) = [] then []
           else [(newDocId env, submitDoc env st user)]))"
  by (simp add: handleSubmit_def submitFailed_def Let_def setDocs_append
      split: option.splits sum.splits bool.splits)

lemma handleSubmit_rejected:
  "st_hasSubmitted st \<Longrightarrow>
     handleSubmit env w st =
       \<lparr> state_after = st, world_after = w, calls = [],
         alerts = [Alert ''Recording already submitted''
                     ''This recording has already been submitted.''] \<rparr>"
  by (simp add: handleSubmit_def)

lemma handleSubmit_db:
  "recordingsDb (world_after (handleSubmit env w st)) =
     (case setDocs (calls (handleSubmit env w st)) of
        [] \<Rightarrow> recordingsDb w
      | (ref, d) # _ \<Rightarrow>
          (if setDocError env = None then (recordingsDb w)(ref \<mapsto> d) else recordingsDb w))"
  by (simp add: handleSubmit_def submitFailed_def Let_def setDocs_append
      split: option.splits sum.splits bool.splits)

lemma handleSubmit_hasSubmitted:
  "st_hasSubmitted (state_after (handleSubmit env w st))
     \<longleftrightarrow> st_hasSubmitted st
         \<or> (setDocs (calls (handleSubmit env w st)) \<noteq> [] \<and> setDocError env = None)"
  by (simp add: handleSubmit_def submitFailed_def Let_def setDocs_append
      split: option.splits sum.splits bool.splits)

lemma handleSubmit_success:
  assumes "\<not> st_hasSubmitted st" "\<not> st_submitting st" "st_volunteerConfidence st \<noteq> []"
    "st_audioUri st \<noteq> []" "currentUser env = Some user" "idToken env = Inr token"
    "fileInfo env = Inr True" "storageBucket env = Some bucket" "bucket \<noteq> []"
    "uploadResult env = Inr code" "200 \<le> code" "code < 300" "setDocError env = None"
  shows "handleSubmit env w st =
     \<lparr> state_after = st\<lparr>st_submitting := False, st_hasSubmitted := True\<rparr>,
       world_after =
         \<lparr> recordingsDb = (recordingsDb w)(newDocId env \<mapsto> submitDoc env st user),
           uploadedFiles = uploadedFiles w @ [submitFilePath env st user] \<rparr>,
       calls = [GetIdToken (uid user), GetUserProfile (uid user), GetInfo (st_audioUri st),
                UploadAsync bucket (submitFilePath env st user) (submitContentType st),
                SetDoc (newDocId env) (submitDoc env st user)],
       alerts = [if selfApprove st
                 then Alert ''Submitted''
                        ''Your recording was saved and approved as an expert submission.''
                 else Alert ''Submitted'' ''Your recording was saved''] \<rparr>"
  using assms by (simp add: handleSubmit_def Let_def truthy_def)

lemma handleSubmit_written:
  assumes "(ref, d) \<in> set (setDocs (calls (handleSubmit env w st)))"
  shows "ref = newDocId env
         \<and> (\<exists>user. currentUser env = Some user \<and> d = submitDoc env st user)"
proof (cases "currentUser env")
  case None
  with assms handleSubmit_setDocs [of env w st] show ?thesis by simp
next
  case (Some user)
  with assms handleSubmit_setDocs [of env w st] show ?thesis
    by (cases "setDocs (calls (handleSubmit env w st)) = []") simp_all
qed

lemma submitDoc_fields:
  "submitDoc env st user ''userId'' = Some (FStr (uid user))"
  "submitDoc env st user ''status''
     = Some (FStr (if selfApprove st then ''approved'' else ''needs_review''))"
  "selfApprove st \<Longrightarrow> reviewerUid (submitDoc env st user) = Some (FStr (uid user))"
  "\<not> selfApprove st \<Longrightarrow> submitDoc env st user ''expertReview'' = None"
  by (simp_all add: submitDoc_def recordingDoc_status recordingDoc_userId recordingDoc_reviewer
      recordingDoc_no_review)

lemma fetchRole_expert_iff:
  "(fetchRole signedIn snap = Some ''expert'' \<or> fetchRole signedIn snap = Some ''admin'')
     \<longleftrightarrow> signedIn
         \<and> (\<exists>d. snap = Inr (Some d)
                \<and> (strField d ''role'' = Some ''expert'' \<or> strField d ''role'' = Some ''admin''))"
proof (cases snap)
  case (Inl err)
  then show ?thesis by (simp add: fetchRole_def)
next
  case (Inr od)
  show ?thesis
  proof (cases od)
    case None
    with Inr show ?thesis by (simp add: fetchRole_def)
  next
    case (Some d)
    with Inr show ?thesis
      by (cases "strField d ''role''") (simp_all add: fetchRole_def coalesce_def)
  qed
qed

text \<open>
  C3: a run of \<open>handleSubmit\<close> writes at most one document. Whatever it writes goes
  to the fresh document id, belongs to the signed-in user and, when the self-approve
  option is on and the role is \<open>expert\<close> or \<open>admin\<close>, has status \<open>approved\<close> with
  \<open>expertReview.reviewer.uid\<close> equal to the submitter's uid; in every other case it has
  status \<open>needs_review\<close> and no \<open>expertReview\<close>. The collection changes by that one
  write only, so the self-approved recording is never stored as \<open>needs_review\<close>, and
  when the guards pass, a non-empty bucket name is configured and every request succeeds
  the document is in the collection.
  The role is the one the screen fetched: \<open>expert\<close> or \<open>admin\<close> exactly when the
  user's document stores that role string.
\<close>

theorem C3_submit_self_approve:
  "length (setDocs (calls (handleSubmit env w st))) \<le> 1
   \<and> (\<forall>ref d. (ref, d) \<in> set (setDocs (calls (handleSubmit env w st))) \<longrightarrow>
         ref = newDocId env
         \<and> (\<exists>user. currentUser env = Some user
               \<and> d ''userId'' = Some (FStr (uid user))
               \<and> (if st_submitAsExpert st
                      \<and> (st_role st = Some ''expert'' \<or> st_role st = Some ''admin'')
                   then d ''status'' = Some (FStr ''approved'')
                        \<and> reviewerUid d = Some (FStr (uid user))
                   else d ''status'' = Some (FStr ''needs_review'')
                        \<and> d ''expertReview'' = None)))
   \<and> recordingsDb (world_after (handleSubmit env w st)) =
       (case setDocs (calls (handleSubmit env w st)) of
          [] \<Rightarrow> recordingsDb w
        | (ref, d) # _ \<Rightarrow>
            (if setDocError env = None then (recordingsDb w)(ref \<mapsto> d) else recordingsDb w))
   \<and> (\<not> st_hasSubmitted st \<and> \<not> st_submitting st \<and> st_volunteerConfidence st \<noteq> []
        \<and> st_audioUri st \<noteq> [] \<and> currentUser env = Some user \<and> idToken env = Inr token
        \<and> fileInfo env = Inr True \<and> storageBucket env = Some bucket \<and> bucket \<noteq> []
        \<and> uploadResult env = Inr code \<and> 200 \<le> code \<and> code < 300 \<and> setDocError env = None
        \<longrightarrow> setDocs (calls (handleSubmit env w st)) = [(newDocId env, submitDoc env st user)]
            \<and> recordingsDb (world_after (handleSubmit env w st))
                = (recordingsDb w)(newDocId env \<mapsto> submitDoc env st user))
   \<and> ((fetchRole signedIn snap = Some ''expert'' \<or> fetchRole signedIn snap = Some ''admin'')
        \<longleftrightarrow> signedIn
            \<and> (\<exists>d. snap = Inr (Some d)
                   \<and> (strField d ''role'' = Some ''expert'' \<or> strField d ''role'' = Some ''admin'')))"
proof (intro conjI allI impI)
  show "(fetchRole signedIn snap = Some ''expert'' \<or> fetchRole signedIn snap = Some ''admin'')
        \<longleftrightarrow> signedIn
            \<and> (\<exists>d. snap = Inr (Some d)
                   \<and> (strField d ''role'' = Some ''expert'' \<or> strField d ''role'' = Some ''admin''))"
    by (rule fetchRole_expert_iff)
next
  show "length (setDocs (calls (handleSubmit env w st))) \<le> 1"
    by (subst handleSubmit_setDocs) (simp split: option.splits)
next
  fix ref d
  assume m: "(ref, d) \<in> set (setDocs (calls (handleSubmit env w st)))"
  from handleSubmit_written [OF m] show "ref = newDocId env" by simp
  from handleSubmit_written [OF m] obtain user
    where u: "currentUser env = Some user" and d: "d = submitDoc env st user"
    by blast
  have "d ''userId'' = Some (FStr (uid user))"
    by (simp add: d submitDoc_fields(1))
  moreover have "if st_submitAsExpert st
        \<and> (st_role st = Some ''expert'' \<or> st_role st = Some ''admin'')
      then d ''status'' = Some (FStr ''approved'') \<and> reviewerUid d = Some (FStr (uid user))
      else d ''status'' = Some (FStr ''needs_review'') \<and> d ''expertReview'' = None"
  proof (cases "selfApprove st")
    case True
    then show ?thesis
      using submitDoc_fields(3) [OF True, of env user]
      by (simp add: d submitDoc_fields(2) selfApprove_def)
  next
    case False
    then show ?thesis
      using submitDoc_fields(4) [OF False, of env user]
      by (simp add: d submitDoc_fields(2) selfApprove_def)
  qed
  ultimately show "\<exists>user. currentUser env = Some user
      \<and> d ''userId'' = Some (FStr (uid user))
      \<and> (if st_submitAsExpert st
             \<and> (st_role st = Some ''expert'' \<or> st_role st = Some ''admin'')
          then d ''status'' = Some (FStr ''approved'') \<and> reviewerUid d = Some (FStr (uid user))
          else d ''status'' = Some (FStr ''needs_review'') \<and> d ''expertReview'' = None)"
    using u by (intro exI [of _ user] conjI)
next
  show "recordingsDb (world_after (handleSubmit env w st)) =
       (case setDocs (calls (handleSubmit env w st)) of
          [] \<Rightarrow> recordingsDb w
        | (ref, d) # _ \<Rightarrow>
            (if setDocError env = None then (recordingsDb w)(ref \<mapsto> d) else recordingsDb w))"
    by (rule handleSubmit_db)
next
  assume a: "\<not> st_hasSubmitted st \<and> \<not> st_submitting st \<and> st_volunteerConfidence st \<noteq> []
        \<and> st_audioUri st \<noteq> [] \<and> currentUser env = Some user \<and> idToken env = Inr token
        \<and> fileInfo env = Inr True \<and> storageBucket env = Some bucket \<and> bucket \<noteq> []
        \<and> uploadResult env = Inr code \<and> 200 \<le> code \<and> code < 300 \<and> setDocError env = None"
  then have s: "handleSubmit env w st =
     \<lparr> state_after = st\<lparr>st_submitting := False, st_hasSubmitted := True\<rparr>,
       world_after =
         \<lparr> recordingsDb = (recordingsDb w)(newDocId env \<mapsto> submitDoc env st user),
           uploadedFiles = uploadedFiles w @ [submitFilePath env st user] \<rparr>,
       calls = [GetIdToken (uid user), GetUserProfile (uid user), GetInfo (st_audioUri st),
                UploadAsync bucket (submitFilePath env st user) (submitContentType st),
                SetDoc (newDocId env) (submitDoc env st user)],
       alerts = [if selfApprove st
                 then Alert ''Submitted''
                        ''Your recording was saved and approved as an expert submission.''
                 else Alert ''Submitted'' ''Your recording was saved''] \<rparr>"
    by (elim conjE) (rule handleSubmit_success; assumption)
  show "setDocs (calls (handleSubmit env w st)) = [(newDocId env, submitDoc env st user)]"
    by (simp add: s)
  show "recordingsDb (world_after (handleSubmit env w st))
      = (recordingsDb w)(newDocId env \<mapsto> submitDoc env st user)"
    by (simp add: s)
qed

lemma fetchRole_expert: "fetchRole True (Inr (profile expertEnv)) = Some ''expert''"
  by (simp add: fetchRole_def expertEnv_def coalesce_def strField_def)

theorem C3_submit_self_approve_witness:
  "fieldOf (recordingsDb (world_after
       (handleSubmit expertEnv emptyWorld (draftState (fetchRole True (Inr (profile expertEnv))) True))))
     ''r7'' ''status'' = Some (FStr ''approved'')
   \<and> map_option reviewerUid (recordingsDb (world_after
       (handleSubmit expertEnv emptyWorld (draftState (fetchRole True (Inr (profile expertEnv))) True)))
       ''r7'') = Some (Some (FStr ''e1''))
   \<and> length (setDocs (calls
       (handleSubmit expertEnv emptyWorld (draftState (fetchRole True (Inr (profile expertEnv))) True))))
     = 1"
proof -
  let ?st = "draftState (fetchRole True (Inr (profile expertEnv))) True"
  let ?user = "\<lparr> uid = ''e1'', displayName = Some ''Eva'', email = None \<rparr>"
  let ?r = "handleSubmit expertEnv emptyWorld ?st"
  note t = C3_submit_self_approve [of expertEnv emptyWorld ?st ?user "''token''" "''bucket''" 200]
  have pre: "\<not> st_hasSubmitted ?st \<and> \<not> st_submitting ?st \<and> st_volunteerConfidence ?st \<noteq> []
        \<and> st_audioUri ?st \<noteq> [] \<and> currentUser expertEnv = Some ?user
        \<and> idToken expertEnv = Inr ''token''
        \<and> fileInfo expertEnv = Inr True \<and> storageBucket expertEnv = Some ''bucket''
        \<and> ''bucket'' \<noteq> []
        \<and> uploadResult expertEnv = Inr 200 \<and> (200::nat) \<le> 200 \<and> (200::nat) < 300
        \<and> setDocError expertEnv = None"
    by (simp add: draftState_def expertEnv_def)
  from t [THEN conjunct2, THEN conjunct2, THEN conjunct2, THEN conjunct1, THEN mp, OF pre]
  have sd: "setDocs (calls ?r) = [(newDocId expertEnv, submitDoc expertEnv ?st ?user)]"
    and db: "recordingsDb (world_after ?r)
        = (recordingsDb emptyWorld)(newDocId expertEnv \<mapsto> submitDoc expertEnv ?st ?user)"
    by simp_all
  have mem: "(newDocId expertEnv, submitDoc expertEnv ?st ?user) \<in> set (setDocs (calls ?r))"
    by (simp add: sd)
  have cond: "st_submitAsExpert ?st
      \<and> (st_role ?st = Some ''expert'' \<or> st_role ?st = Some ''admin'')"
    by (simp add: draftState_def fetchRole_expert)
  from t [THEN conjunct2, THEN conjunct1, THEN spec, THEN spec, THEN mp, OF mem]
  obtain u where cu: "currentUser expertEnv = Some u"
    and body: "if st_submitAsExpert ?st
        \<and> (st_role ?st = Some ''expert'' \<or> st_role ?st = Some ''admin'')
      then submitDoc expertEnv ?st ?user ''status'' = Some (FStr ''approved'')
           \<and> reviewerUid (submitDoc expertEnv ?st ?user) = Some (FStr (uid u))
      else submitDoc expertEnv ?st ?user ''status'' = Some (FStr ''needs_review'')
           \<and> submitDoc expertEnv ?st ?user ''expertReview'' = None"
    by blast
  from cu have u: "uid u = ''e1''"
    by (auto simp: expertEnv_def)
  from body cond have st: "submitDoc expertEnv ?st ?user ''status'' = Some (FStr ''approved'')"
    and rv: "reviewerUid (submitDoc expertEnv ?st ?user) = Some (FStr ''e1'')"
    by (simp_all add: u)
  have id: "newDocId expertEnv = ''r7''"
    by (simp add: expertEnv_def)
  show ?thesis
    unfolding db sd by (simp add: fieldOf_def id st rv)
qed

subsection \<open>Duplicate submission\<close>

text \<open>
  C6: once \<open>hasSubmitted\<close> is set, \<open>handleSubmit\<close> makes no request, leaves the
  collection, the uploaded files and the screen state as they are, and only shows the
  \<open>Recording already submitted\<close> alert; and a run that wrote its document sets
  \<open>hasSubmitted\<close>, so every later run on that draft, whatever the outside world would
  answer, is rejected in this way.
\<close>

theorem C6_duplicate_submit_rejected:
  "(st_hasSubmitted st \<longrightarrow>
      handleSubmit env w st =
        \<lparr> state_after = st, world_after = w, calls = [],
          alerts = [Alert ''Recording already submitted''
                      ''This recording has already been submitted.''] \<rparr>)
   \<and> (setDocs (calls (handleSubmit envFirst w st)) \<noteq> [] \<and> setDocError envFirst = None \<longrightarrow>
        st_hasSubmitted (state_after (handleSubmit envFirst w st))
        \<and> handleSubmit envAgain (world_after (handleSubmit envFirst w st))
              (state_after (handleSubmit envFirst w st)) =
            \<lparr> state_after = state_after (handleSubmit envFirst w st),
              world_after = world_after (handleSubmit envFirst w st),
              calls = [],
              alerts = [Alert ''Recording already submitted''
                          ''This recording has already been submitted.''] \<rparr>)"
proof (intro conjI impI)
  assume "st_hasSubmitted st"
  then show "handleSubmit env w st =
        \<lparr> state_after = st, world_after = w, calls = [],
          alerts = [Alert ''Recording already submitted''
                      ''This recording has already been submitted.''] \<rparr>"
    by (rule handleSubmit_rejected)
next
  assume a: "setDocs (calls (handleSubmit envFirst w st)) \<noteq> [] \<and> setDocError envFirst = None"
  then show h: "st_hasSubmitted (state_after (handleSubmit envFirst w st))"
    by (simp add: handleSubmit_hasSubmitted)
  then show "handleSubmit envAgain (world_after (handleSubmit envFirst w st))
              (state_after (handleSubmit envFirst w st)) =
            \<lparr> state_after = state_after (handleSubmit envFirst w st),
              world_after = world_after (handleSubmit envFirst w st),
              calls = [],
              alerts = [Alert ''Recording already submitted''
                          ''This recording has already been submitted.''] \<rparr>"
    by (rule handleSubmit_rejected)
qed

lemma expertEnv_submit:
  "handleSubmit expertEnv emptyWorld (draftState (Some ''volunteer'') False) =
     \<lparr> state_after = (draftState (Some ''volunteer'') False)
                       \<lparr>st_submitting := False, st_hasSubmitted := True\<rparr>,
       world_after =
         \<lparr> recordingsDb = (recordingsDb emptyWorld)
             (newDocId expertEnv \<mapsto> submitDoc expertEnv (draftState (Some ''volunteer'') False)
                \<lparr> uid = ''e1'', displayName = Some ''Eva'', email = None \<rparr>),
           uploadedFiles = uploadedFiles emptyWorld
             @ [submitFilePath expertEnv (draftState (Some ''volunteer'') False)
                  \<lparr> uid = ''e1'', displayName = Some ''Eva'', email = None \<rparr>] \<rparr>,
       calls = [GetIdToken (uid \<lparr> uid = ''e1'', displayName = Some ''Eva'', email = None \<rparr>),
                GetUserProfile (uid \<lparr> uid = ''e1'', displayName = Some ''Eva'', email = None \<rparr>),
                GetInfo (st_audioUri (draftState (Some ''volunteer'') False)),
                UploadAsync ''bucket''
                  (submitFilePath expertEnv (draftState (Some ''volunteer'') False)
                     \<lparr> uid = ''e1'', displayName = Some ''Eva'', email = None \<rparr>)
                  (submitContentType (draftState (Some ''volunteer'') False)),
                SetDoc (newDocId expertEnv)
                  (submitDoc expertEnv (draftState (Some ''volunteer'') False)
                     \<lparr> uid = ''e1'', displayName = Some ''Eva'', email = None \<rparr>)],
       alerts = [if selfApprove (draftState (Some ''volunteer'') False)
                 then Alert ''Submitted''
                        ''Your recording was saved and approved as an expert submission.''
                 else Alert ''Submitted'' ''Your recording was saved''] \<rparr>"
  by (rule handleSubmit_success [where token = "''token''" and code = 200])
    (simp_all add: draftState_def expertEnv_def)

theorem C6_duplicate_submit_rejected_witness:
  "calls (handleSubmit expertEnv
            (world_after (handleSubmit expertEnv emptyWorld (draftState (Some ''volunteer'') False)))
            (state_after (handleSubmit expertEnv emptyWorld (draftState (Some ''volunteer'') False))))
     = []
   \<and> world_after (handleSubmit expertEnv
            (world_after (handleSubmit expertEnv emptyWorld (draftState (Some ''volunteer'') False)))
            (state_after (handleSubmit expertEnv emptyWorld (draftState (Some ''volunteer'') False))))
     = world_after (handleSubmit expertEnv emptyWorld (draftState (Some ''volunteer'') False))
   \<and> length (calls (handleSubmit expertEnv emptyWorld (draftState (Some ''volunteer'') False))) = 5"
proof -
  let ?r = "handleSubmit expertEnv emptyWorld (draftState (Some ''volunteer'') False)"
  have pre: "setDocs (calls ?r) \<noteq> [] \<and> setDocError expertEnv = None"
    unfolding expertEnv_submit by (simp add: expertEnv_def)
  from C6_duplicate_submit_rejected [where envFirst = expertEnv and w = emptyWorld
      and st = "draftState (Some ''volunteer'') False" and envAgain = expertEnv,
      THEN conjunct2, THEN mp, OF pre]
  have "handleSubmit expertEnv (world_after ?r) (state_after ?r) =
      \<lparr> state_after = state_after ?r, world_after = world_after ?r, calls = [],
        alerts = [Alert ''Recording already submitted''
                    ''This recording has already been submitted.''] \<rparr>"
    by simp
  moreover have "length (calls ?r) = 5"
    unfolding expertEnv_submit by simp
  ultimately show ?thesis by simp
qed

subsection \<open>Status of a projected recording\<close>

lemma parseRecording_status:
  "status (parseRecording now ref d) =
     (case d ''status'' of
        None \<Rightarrow> FStr ''pending_analysis''
      | Some FNull \<Rightarrow> FStr ''pending_analysis''
      | Some v \<Rightarrow> v)"
  by (simp add: parseRecording_def)

lemma carriesReviewer_cong:
  "d' ''expertReview'' = d ''expertReview'' \<Longrightarrow> d' ''status'' = d ''status''
     \<Longrightarrow> carriesReviewer d' = carriesReviewer d"
  by (simp add: carriesReviewer_def reviewerUid_def)

lemma carriesReviewer_needs_review:
  "d ''status'' = Some (FStr ''needs_review'') \<Longrightarrow> carriesReviewer d"
  by (simp add: carriesReviewer_def)

lemma carriesReviewer_submitDoc: "carriesReviewer (submitDoc env st user)"
proof (cases "selfApprove st")
  case True
  then show ?thesis
    by (simp add: carriesReviewer_def submitDoc_fields(3))
next
  case False
  then show ?thesis
    by (simp add: carriesReviewer_def submitDoc_fields(2))
qed

lemma handleSubmit_doc_origin:
  assumes "recordingsDb (world_after (handleSubmit env w st)) ref = Some d"
  shows "recordingsDb w ref = Some d
         \<or> (\<exists>user. currentUser env = Some user \<and> d = submitDoc env st user)"
proof (cases "setDocs (calls (handleSubmit env w st))")
  case Nil
  with assms show ?thesis by (simp add: handleSubmit_db)
next
  case (Cons p ps)
  obtain r x where p: "p = (r, x)" by (cases p)
  have "(r, x) \<in> set (setDocs (calls (handleSubmit env w st)))"
    by (simp add: Cons p)
  from handleSubmit_written [OF this] obtain user
    where u: "currentUser env = Some user" and x: "x = submitDoc env st user"
    by blast
  from assms have "recordingsDb w ref = Some d \<or> d = x"
    by (simp add: handleSubmit_db Cons p split: if_splits)
  with u x show ?thesis by blast
qed

lemma handleResubmit_cases:
  "fst (handleResubmit accepted db recs editMode form recId) = db
   \<or> (\<exists>d. db recId = Some d
          \<and> fst (handleResubmit accepted db recs editMode form recId)
              = db(recId \<mapsto> d ++ resubmitUpdates form))"
  by (simp add: handleResubmit_def updateDoc_def Let_def split: option.splits)

lemma submit_keeps_reviewer:
  assumes "\<forall>ref d. recordingsDb w ref = Some d \<longrightarrow> carriesReviewer d"
    and "recordingsDb (world_after (handleSubmit env w st)) ref = Some d"
  shows "carriesReviewer d"
  using handleSubmit_doc_origin [OF assms(2)] assms(1) carriesReviewer_submitDoc
  by auto

lemma resubmit_keeps_reviewer:
  assumes "\<forall>ref d. db ref = Some d \<longrightarrow> carriesReviewer d"
    and "fst (handleResubmit accepted db recs editMode form recId) ref = Some d"
  shows "carriesReviewer d"
proof -
  from handleResubmit_cases [of accepted db recs editMode form recId]
  show ?thesis
  proof
    assume "fst (handleResubmit accepted db recs editMode form recId) = db"
    with assms show ?thesis by simp
  next
    assume "\<exists>d. db recId = Some d
        \<and> fst (handleResubmit accepted db recs editMode form recId)
            = db(recId \<mapsto> d ++ resubmitUpdates form)"
    then obtain d0 where e: "fst (handleResubmit accepted db recs editMode form recId)
        = db(recId \<mapsto> d0 ++ resubmitUpdates form)"
      by blast
    show ?thesis
    proof (cases "ref = recId")
      case True
      with assms(2) e have "d = d0 ++ resubmitUpdates form" by simp
      then have "d ''status'' = Some (FStr ''needs_review'')"
        by (simp add: map_add_apply resubmitUpdates_fields(1))
      then show ?thesis by (rule carriesReviewer_needs_review)
    next
      case False
      with assms(2) e have "db ref = Some d" by simp
      with assms(1) show ?thesis by simp
    qed
  qed
qed

lemma saveEdits_keeps_reviewer:
  assumes "\<forall>ref d. db ref = Some d \<longrightarrow> carriesReviewer d"
    and "fst (handleSaveEdits accepted db expanded editMode form) ref = Some d"
  shows "carriesReviewer d"
proof -
  from assms(2) handleSaveEdits_dom [of accepted db expanded editMode form]
  obtain d0 where d0: "db ref = Some d0"
    by (metis domD domI)
  have "fieldOf (fst (handleSaveEdits accepted db expanded editMode form)) ref ''status''
      = fieldOf db ref ''status''"
    by (rule handleSaveEdits_frame) simp
  then have s: "d ''status'' = d0 ''status''"
    by (simp add: fieldOf_def assms(2) d0)
  have "fieldOf (fst (handleSaveEdits accepted db expanded editMode form)) ref ''expertReview''
      = fieldOf db ref ''expertReview''"
    by (rule handleSaveEdits_frame) simp
  then have r: "d ''expertReview'' = d0 ''expertReview''"
    by (simp add: fieldOf_def assms(2) d0)
  from assms(1) d0 have "carriesReviewer d0" by simp
  with carriesReviewer_cong [OF r s] show ?thesis by simp
qed

text \<open>
  C5, as stated, fails: a document that stores no \<open>status\<close> is projected with the
  status \<open>pending_analysis\<close> by the data context (and by the history and map screens,
  which use the same expression), a fourth value that the history screen labels
  \<open>Processing\<close>; the admin's user screen projects it as \<open>pending\<close> and shows that
  word.
\<close>

theorem C5_status_counterexample:
  "status (parseRecording 0 ''r1'' [''recordingId'' \<mapsto> FStr ''r1'', ''userId'' \<mapsto> FStr ''u1''])
     = FStr ''pending_analysis''
   \<and> status (parseRecording 0 ''r1'' [''recordingId'' \<mapsto> FStr ''r1'', ''userId'' \<mapsto> FStr ''u1''])
     \<noteq> FStr ''needs_review''
   \<and> status (parseRecording 0 ''r1'' [''recordingId'' \<mapsto> FStr ''r1'', ''userId'' \<mapsto> FStr ''u1''])
     \<noteq> FStr ''approved''
   \<and> status (parseRecording 0 ''r1'' [''recordingId'' \<mapsto> FStr ''r1'', ''userId'' \<mapsto> FStr ''u1''])
     \<noteq> FStr ''discarded''
   \<and> getStatusLabel
       (status (parseRecording 0 ''r1'' [''recordingId'' \<mapsto> FStr ''r1'', ''userId'' \<mapsto> FStr ''u1'']))
     = ''Processing''
   \<and> loadUserRecordings_status [''recordingId'' \<mapsto> FStr ''r1'', ''userId'' \<mapsto> FStr ''u1'']
     = FStr ''pending''
   \<and> statusBadgeText
       (loadUserRecordings_status [''recordingId'' \<mapsto> FStr ''r1'', ''userId'' \<mapsto> FStr ''u1''])
     = FStr ''pending''"
  by (simp add: parseRecording_status getStatusLabel_def loadUserRecordings_status_def
      statusBadgeText_def)

text \<open>
  C5, amended: every recording projected into a view has the status value its document
  stores; when the document stores none (or \<open>null\<close>), the data context, the history
  screen and the map screen give it \<open>pending_analysis\<close>, and the admin's user screen
  gives \<open>pending\<close> to a missing or falsy stored value. So the projected status is one
  of \<open>needs_review\<close>, \<open>approved\<close>, \<open>discarded\<close> exactly when the stored one is; a
  status outside the three is labelled \<open>Processing\<close> by the history screen and shown
  as it is by the user screen. Every recording in \<open>approved\<close> or \<open>discarded\<close>
  carries a reviewer identity in its stored document, as an invariant of the collection
  that every write of the client keeps (submit, edit and resubmit, save edits in the map
  view), and the reviewer equals the submitter for a self-approved submission.
\<close>

theorem C5_status_projection:
  "(d ''status'' = Some v \<and> v \<noteq> FNull \<longrightarrow> status (parseRecording now ref d) = v)
   \<and> (d ''status'' = None \<or> d ''status'' = Some FNull \<longrightarrow>
        status (parseRecording now ref d) = FStr ''pending_analysis'')
   \<and> (d ''status'' = Some v \<and> \<not> falsyVal v \<longrightarrow> loadUserRecordings_status d = v)
   \<and> (d ''status'' = None \<or> (\<exists>u. d ''status'' = Some u \<and> falsyVal u) \<longrightarrow>
        loadUserRecordings_status d = FStr ''pending'')
   \<and> (status (parseRecording now ref d)
          \<in> {FStr ''needs_review'', FStr ''approved'', FStr ''discarded''}
        \<longleftrightarrow> d ''status''
          \<in> {Some (FStr ''needs_review''), Some (FStr ''approved''), Some (FStr ''discarded'')})
   \<and> (loadUserRecordings_status d
          \<in> {FStr ''needs_review'', FStr ''approved'', FStr ''discarded''}
        \<longleftrightarrow> d ''status''
          \<in> {Some (FStr ''needs_review''), Some (FStr ''approved''), Some (FStr ''discarded'')})
   \<and> (getStatusLabel s = ''Processing''
        \<longleftrightarrow> s \<notin> {FStr ''needs_review'', FStr ''approved'', FStr ''discarded''})
   \<and> (s \<notin> {FStr ''needs_review'', FStr ''approved'', FStr ''discarded''} \<longrightarrow>
        statusBadgeText s = s)
   \<and> ((\<forall>r x. db r = Some x \<longrightarrow> carriesReviewer x) \<longrightarrow>
        (\<forall>r x. recordingsDb (world_after
                   (handleSubmit env \<lparr>recordingsDb = db, uploadedFiles = files\<rparr> st)) r = Some x
               \<longrightarrow> carriesReviewer x)
        \<and> (\<forall>r x. fst (handleResubmit accepted db recs histMode form recId) r = Some x
               \<longrightarrow> carriesReviewer x)
        \<and> (\<forall>r x. fst (handleSaveEdits accepted db expanded mapMode form) r = Some x
               \<longrightarrow> carriesReviewer x))
   \<and> (\<forall>r x. (r, x) \<in> set (setDocs (calls (handleSubmit env w st)))
               \<and> x ''status'' = Some (FStr ''approved'') \<longrightarrow>
          (\<exists>user. currentUser env = Some user
             \<and> reviewerUid x = Some (FStr (uid user))
             \<and> x ''userId'' = Some (FStr (uid user))))"
proof (intro conjI allI impI)
  assume "d ''status'' = Some v \<and> v \<noteq> FNull"
  then show "status (parseRecording now ref d) = v"
    by (cases v) (simp_all add: parseRecording_status)
next
  assume "d ''status'' = None \<or> d ''status'' = Some FNull"
  then show "status (parseRecording now ref d) = FStr ''pending_analysis''"
    by (auto simp: parseRecording_status)
next
  assume "d ''status'' = Some v \<and> \<not> falsyVal v"
  then show "loadUserRecordings_status d = v"
    by (simp add: loadUserRecordings_status_def)
next
  assume "d ''status'' = None \<or> (\<exists>u. d ''status'' = Some u \<and> falsyVal u)"
  then show "loadUserRecordings_status d = FStr ''pending''"
    by (auto simp: loadUserRecordings_status_def)
next
  show "status (parseRecording now ref d)
          \<in> {FStr ''needs_review'', FStr ''approved'', FStr ''discarded''}
        \<longleftrightarrow> d ''status''
          \<in> {Some (FStr ''needs_review''), Some (FStr ''approved''), Some (FStr ''discarded'')}"
  proof (cases "d ''status''")
    case None
    then show ?thesis by (simp add: parseRecording_status)
  next
    case (Some u)
    then show ?thesis by (cases u) (simp_all add: parseRecording_status)
  qed
next
  show "loadUserRecordings_status d
          \<in> {FStr ''needs_review'', FStr ''approved'', FStr ''discarded''}
        \<longleftrightarrow> d ''status''
          \<in> {Some (FStr ''needs_review''), Some (FStr ''approved''), Some (FStr ''discarded'')}"
  proof (cases "d ''status''")
    case None
    then show ?thesis by (simp add: loadUserRecordings_status_def)
  next
    case (Some u)
    then show ?thesis
      by (cases "falsyVal u") (auto simp: loadUserRecordings_status_def falsyVal_def)
  qed
next
  show "getStatusLabel s = ''Processing''
        \<longleftrightarrow> s \<notin> {FStr ''needs_review'', FStr ''approved'', FStr ''discarded''}"
    by (simp add: getStatusLabel_def)
next
  assume "s \<notin> {FStr ''needs_review'', FStr ''approved'', FStr ''discarded''}"
  then show "statusBadgeText s = s"
    by (simp add: statusBadgeText_def)
next
  fix r x
  assume inv: "\<forall>r x. db r = Some x \<longrightarrow> carriesReviewer x"
  {
    assume "recordingsDb (world_after
        (handleSubmit env \<lparr>recordingsDb = db, uploadedFiles = files\<rparr> st)) r = Some x"
    with inv show "carriesReviewer x"
      by (intro submit_keeps_reviewer
            [of "\<lparr>recordingsDb = db, uploadedFiles = files\<rparr>" env st r x]) simp_all
  next
    assume "fst (handleResubmit accepted db recs histMode form recId) r = Some x"
    with inv show "carriesReviewer x"
      by (rule resubmit_keeps_reviewer)
  next
    assume "fst (handleSaveEdits accepted db expanded mapMode form) r = Some x"
    with inv show "carriesReviewer x"
      by (rule saveEdits_keeps_reviewer)
  }
next
  fix r x
  assume a: "(r, x) \<in> set (setDocs (calls (handleSubmit env w st)))
      \<and> x ''status'' = Some (FStr ''approved'')"
  then have m: "(r, x) \<in> set (setDocs (calls (handleSubmit env w st)))"
    and ap: "x ''status'' = Some (FStr ''approved'')"
    by simp_all
  from handleSubmit_written [OF m] obtain user
    where u: "currentUser env = Some user" and x: "x = submitDoc env st user"
    by blast
  from ap have sa: "selfApprove st"
    by (simp add: x submitDoc_fields(2) split: if_splits)
  have "reviewerUid x = Some (FStr (uid user))"
    unfolding x using sa by (rule submitDoc_fields(3))
  moreover have "x ''userId'' = Some (FStr (uid user))"
    by (simp add: x submitDoc_fields(1))
  ultimately show "\<exists>user. currentUser env = Some user
      \<and> reviewerUid x = Some (FStr (uid user))
      \<and> x ''userId'' = Some (FStr (uid user))"
    using u by (intro exI [of _ user] conjI)
qed

lemma approvedDoc_carriesReviewer: "carriesReviewer approvedDoc"
  by (simp add: carriesReviewer_def reviewerUid_def approvedDoc_def)

theorem C5_status_projection_witness:
  "status (parseRecording 0 ''r1'' approvedDoc) = FStr ''approved''
   \<and> status (parseRecording 0 ''r1'' Map.empty) = FStr ''pending_analysis''
   \<and> loadUserRecordings_status Map.empty = FStr ''pending''
   \<and> getStatusLabel (FStr ''rejected'') = ''Processing''
   \<and> map_option (\<lambda>x. x ''status'' = Some (FStr ''approved'') \<and> reviewerUid x \<noteq> None)
        (fst (handleSaveEdits True [''r1'' \<mapsto> approvedDoc]
                (Some (exampleRecording ''r1'' ''Bullfrog'' 5)) True exampleForm) ''r1'')
       = Some True
   \<and> map_option reviewerUid
        (recordingsDb (world_after
           (handleSubmit expertEnv emptyWorld (draftState (Some ''expert'') True))) ''r7'')
       = Some (Some (FStr ''e1''))"
proof -
  let ?db = "[''r1'' \<mapsto> approvedDoc]"
  let ?rec = "exampleRecording ''r1'' ''Bullfrog'' 5"
  let ?st = "draftState (Some ''expert'') True"
  let ?user = "\<lparr> uid = ''e1'', displayName = Some ''Eva'', email = None \<rparr>"
  note t = C5_status_projection [where d = approvedDoc and v = "FStr ''approved''" and now = 0
      and ref = "''r1''" and s = "FStr ''rejected''" and db = ?db and env = expertEnv
      and files = "[]" and st = ?st and accepted = True and recs = "[]" and histMode = None
      and form = exampleForm and recId = "''r1''" and expanded = "Some ?rec" and mapMode = True
      and w = emptyWorld]
  note e = C5_status_projection [where d = Map.empty and v = "FStr ''approved''" and now = 0
      and ref = "''r1''" and s = "FStr ''rejected''" and db = ?db and env = expertEnv
      and files = "[]" and st = ?st and accepted = True and recs = "[]" and histMode = None
      and form = exampleForm and recId = "''r1''" and expanded = "Some ?rec" and mapMode = True
      and w = emptyWorld]
  have w1: "status (parseRecording 0 ''r1'' approvedDoc) = FStr ''approved''"
    by (rule t [THEN conjunct1, THEN mp]) (simp add: approvedDoc_def)
  have w2: "status (parseRecording 0 ''r1'' Map.empty) = FStr ''pending_analysis''"
    by (rule e [THEN conjunct2, THEN conjunct1, THEN mp]) simp
  have w3: "loadUserRecordings_status Map.empty = FStr ''pending''"
    by (rule e [THEN conjunct2, THEN conjunct2, THEN conjunct2, THEN conjunct1, THEN mp]) simp
  have w4: "getStatusLabel (FStr ''rejected'') = ''Processing''"
    by (rule t [THEN conjunct2, THEN conjunct2, THEN conjunct2, THEN conjunct2, THEN conjunct2,
          THEN conjunct2, THEN conjunct1, THEN iffD2]) simp
  have inv: "\<forall>r x. ?db r = Some x \<longrightarrow> carriesReviewer x"
    by (simp add: approvedDoc_carriesReviewer)
  note keep = t [THEN conjunct2, THEN conjunct2, THEN conjunct2, THEN conjunct2, THEN conjunct2,
      THEN conjunct2, THEN conjunct2, THEN conjunct2, THEN conjunct1, THEN mp, OF inv]
  have rid: "recordingId ?rec = ''r1''"
    by (simp add: exampleRecording_def)
  let ?x = "approvedDoc ++ saveEditsUpdates exampleForm"
  have res: "fst (handleSaveEdits True ?db (Some ?rec) True exampleForm) = ?db(''r1'' \<mapsto> ?x)"
    by (simp add: handleSaveEdits_cases rid)
  then have "fst (handleSaveEdits True ?db (Some ?rec) True exampleForm) ''r1'' = Some ?x"
    by simp
  with keep [THEN conjunct2, THEN conjunct2] have cr: "carriesReviewer ?x"
    by blast
  have sx: "?x ''status'' = Some (FStr ''approved'')"
    by (simp add: map_add_apply saveEditsUpdates_other approvedDoc_def)
  with cr have "reviewerUid ?x \<noteq> None"
    by (simp add: carriesReviewer_def)
  with sx have w5: "map_option (\<lambda>x. x ''status'' = Some (FStr ''approved'') \<and> reviewerUid x \<noteq> None)
        (fst (handleSaveEdits True ?db (Some ?rec) True exampleForm) ''r1'') = Some True"
    unfolding res by simp
  have run: "handleSubmit expertEnv emptyWorld ?st =
     \<lparr> state_after = ?st\<lparr>st_submitting := False, st_hasSubmitted := True\<rparr>,
       world_after =
         \<lparr> recordingsDb = (recordingsDb emptyWorld)(newDocId expertEnv \<mapsto> submitDoc expertEnv ?st ?user),
           uploadedFiles = uploadedFiles emptyWorld @ [submitFilePath expertEnv ?st ?user] \<rparr>,
       calls = [GetIdToken (uid ?user), GetUserProfile (uid ?user), GetInfo (st_audioUri ?st),
                UploadAsync ''bucket'' (submitFilePath expertEnv ?st ?user) (submitContentType ?st),
                SetDoc (newDocId expertEnv) (submitDoc expertEnv ?st ?user)],
       alerts = [if selfApprove ?st
                 then Alert ''Submitted''
                        ''Your recording was saved and approved as an expert submission.''
                 else Alert ''Submitted'' ''Your recording was saved''] \<rparr>"
    by (rule handleSubmit_success [where token = "''token''" and code = 200])
      (simp_all add: draftState_def expertEnv_def)
  have sa: "selfApprove ?st"
    by (simp add: selfApprove_def draftState_def)
  have mem: "(newDocId expertEnv, submitDoc expertEnv ?st ?user)
      \<in> set (setDocs (calls (handleSubmit expertEnv emptyWorld ?st)))
      \<and> submitDoc expertEnv ?st ?user ''status'' = Some (FStr ''approved'')"
    unfolding run using sa by (simp add: submitDoc_fields(2))
  from t [THEN conjunct2, THEN conjunct2, THEN conjunct2, THEN conjunct2, THEN conjunct2,
      THEN conjunct2, THEN conjunct2, THEN conjunct2, THEN conjunct2, THEN spec, THEN spec,
      THEN mp, OF mem]
  obtain u where cu: "currentUser expertEnv = Some u"
    and rv: "reviewerUid (submitDoc expertEnv ?st ?user) = Some (FStr (uid u))"
    by blast
  from cu have "uid u = ''e1''"
    by (auto simp: expertEnv_def)
  with rv have w6: "map_option reviewerUid
        (recordingsDb (world_after (handleSubmit expertEnv emptyWorld ?st)) ''r7'')
       = Some (Some (FStr ''e1''))"
    unfolding run by (simp add: expertEnv_def)
  from w1 w2 w3 w4 w5 w6 show ?thesis by (intro conjI)
qed

subsection \<open>Reverse geocoding\<close>

lemma orStr_nonempty: "b \<noteq> [] \<Longrightarrow> orStr a b \<noteq> []"
  by (simp add: orStr_def split: option.splits)

lemma truthy_Some: "s \<noteq> [] \<Longrightarrow> truthy (Some s) = Some s"
  by (simp add: truthy_def)

lemma getCity_hit:
  "truthy (geocodeCache (cacheKey la lo)) = Some hit \<Longrightarrow>
     getCityFromCoords geocodeCache la lo reply
       = \<lparr> place = hit, cache_after = geocodeCache, requests = 0 \<rparr>"
  by (simp add: getCityFromCoords_def)

lemma getCity_fail:
  "truthy (geocodeCache (cacheKey la lo)) = None \<Longrightarrow>
     getCityFromCoords geocodeCache la lo GeoFails
       = \<lparr> place = ''Unknown Location'', cache_after = geocodeCache, requests = 1 \<rparr>"
  by (simp add: getCityFromCoords_def)

lemma getCity_cached_after:
  assumes "truthy (geocodeCache (cacheKey la lo)) \<noteq> None \<or> reply \<noteq> GeoFails"
  shows "truthy (cache_after (getCityFromCoords geocodeCache la lo reply) (cacheKey la lo))
           = Some (place (getCityFromCoords geocodeCache la lo reply))
         \<and> requests (getCityFromCoords geocodeCache la lo reply) \<le> 1"
proof (cases "truthy (geocodeCache (cacheKey la lo))")
  case (Some hit)
  then show ?thesis by (simp add: getCity_hit)
next
  case None
  with assms obtain code a where r: "reply = GeoData code a"
    by (cases reply) simp_all
  show ?thesis
    using None
    by (simp add: getCityFromCoords_def r Let_def truthy_Some orStr_nonempty)
qed

lemma toFixed3_of:
  assumes "\<lfloor>\<bar>x\<bar> * 1000 + 1 / 2\<rfloor> = int n"
  shows "toFixed3 x =
     (if x < 0 then ''-'' else [])
     @ showNat (n div 1000) @ ''.''
     @ [digitChar (n mod 1000 div 100), digitChar (n mod 1000 div 10 mod 10),
        digitChar (n mod 1000 mod 10)]"
  by (simp add: toFixed3_def Let_def assms)

lemma showNat_42: "showNat 42 = ''42''"
  by (simp add: showNat.simps digitChar_def)

lemma showNat_83: "showNat 83 = ''83''"
  by (simp add: showNat.simps digitChar_def)

lemma toFixed3_latA: "toFixed3 latA = ''42.331''"
  unfolding latA_def
  by (subst toFixed3_of [of _ 42331]) (simp_all add: floor_eq_iff showNat_42 digitChar_def)

lemma toFixed3_latB: "toFixed3 latB = ''42.331''"
  unfolding latB_def
  by (subst toFixed3_of [of _ 42331]) (simp_all add: floor_eq_iff showNat_42 digitChar_def)

lemma toFixed3_lonA: "toFixed3 lonA = ''-83.046''"
  unfolding lonA_def
  by (subst toFixed3_of [of _ 83046]) (simp_all add: floor_eq_iff showNat_83 digitChar_def)

lemma toFixed3_lonB: "toFixed3 lonB = ''-83.046''"
  unfolding lonB_def
  by (subst toFixed3_of [of _ 83046]) (simp_all add: floor_eq_iff showNat_83 digitChar_def)

lemma keyA: "cacheKey latA lonA = ''42.331,-83.046''"
  by (simp only: cacheKey_def toFixed3_latA toFixed3_lonA) simp

lemma keyB: "cacheKey latB lonB = ''42.331,-83.046''"
  by (simp only: cacheKey_def toFixed3_latB toFixed3_lonB) simp

text \<open>
  What the memoized copies of the history and map screens do on two successive calls
  with the same key: after a call that hit the cache or whose request returned a
  decodable body, the next call issues no request; after a request that threw, the
  sentinel is returned, the cache is as it was and the next call issues a request. The
  copy of the prediction screen issues a request on every call.
\<close>

lemma getCityFromCoords_memoized:
  assumes "cacheKey la1 lo1 = cacheKey la2 lo2"
  shows "(truthy (c (cacheKey la1 lo1)) \<noteq> None \<or> reply1 \<noteq> GeoFails \<longrightarrow>
           requests (getCityFromCoords c la1 lo1 reply1)
             + requests (getCityFromCoords
                 (cache_after (getCityFromCoords c la1 lo1 reply1)) la2 lo2 reply2) \<le> 1
           \<and> getCityFromCoords (cache_after (getCityFromCoords c la1 lo1 reply1)) la2 lo2 reply2
               = \<lparr> place = place (getCityFromCoords c la1 lo1 reply1),
                   cache_after = cache_after (getCityFromCoords c la1 lo1 reply1),
                   requests = 0 \<rparr>)
         \<and> (truthy (c (cacheKey la1 lo1)) = None \<longrightarrow>
              getCityFromCoords c la1 lo1 GeoFails
                = \<lparr> place = ''Unknown Location'', cache_after = c, requests = 1 \<rparr>
              \<and> requests (getCityFromCoords
                   (cache_after (getCityFromCoords c la1 lo1 GeoFails)) la2 lo2 reply2) = 1)
         \<and> snd (getCityFromCoords_prediction la1 lo1 reply1) = 1"
proof (intro conjI impI)
  show "snd (getCityFromCoords_prediction la1 lo1 reply1) = 1"
    by (cases reply1) (simp_all add: getCityFromCoords_prediction_def Let_def)
next
  assume a: "truthy (c (cacheKey la1 lo1)) \<noteq> None \<or> reply1 \<noteq> GeoFails"
  let ?r1 = "getCityFromCoords c la1 lo1 reply1"
  from a getCity_cached_after [of c la1 lo1 reply1]
  have hit: "truthy (cache_after ?r1 (cacheKey la2 lo2)) = Some (place ?r1)"
    and one: "requests ?r1 \<le> 1"
    by (simp_all add: assms)
  show second: "getCityFromCoords (cache_after ?r1) la2 lo2 reply2
      = \<lparr> place = place ?r1, cache_after = cache_after ?r1, requests = 0 \<rparr>"
    using hit by (rule getCity_hit)
  show "requests ?r1 + requests (getCityFromCoords (cache_after ?r1) la2 lo2 reply2) \<le> 1"
    using one by (simp add: second)
next
  assume n: "truthy (c (cacheKey la1 lo1)) = None"
  then show f: "getCityFromCoords c la1 lo1 GeoFails
      = \<lparr> place = ''Unknown Location'', cache_after = c, requests = 1 \<rparr>"
    by (rule getCity_fail)
  from n have "truthy (c (cacheKey la2 lo2)) = None"
    by (simp add: assms)
  then show "requests (getCityFromCoords
      (cache_after (getCityFromCoords c la1 lo1 GeoFails)) la2 lo2 reply2) = 1"
    unfolding f by (cases reply2) (simp_all add: getCityFromCoords_def Let_def)
qed

text \<open>
  C7, at its failing inputs: the claim holds of the memoized copies only for a request
  that throws, and not at all of the prediction screen's copy. The two places \<open>(42.3314, -83.0458)\<close> and
  \<open>(42.3312, -83.0461)\<close> round to the same key \<open>42.331,-83.046\<close>. In the prediction
  screen, two calls for them issue two requests although the first was answered. In the
  history and map screens, a first call answered with HTTP 500 and no address returns
  \<open>Unknown\<close>, not the sentinel, and stores it in the cache, so the second call issues
  no request and returns \<open>Unknown\<close> although the geocoder would now answer
  \<open>Detroit, Michigan\<close>.
\<close>

theorem C7_geocode_failing_inputs:
  "cacheKey latA lonA = cacheKey latB lonB
   \<and> getCityFromCoords_prediction latA lonA detroit = (''Detroit, Michigan'', 1)
   \<and> getCityFromCoords_prediction latB lonB detroit = (''Detroit, Michigan'', 1)
   \<and> snd (getCityFromCoords_prediction latA lonA detroit)
       + snd (getCityFromCoords_prediction latB lonB detroit) = 2
   \<and> getCityFromCoords Map.empty latA lonA serverError
       = \<lparr> place = ''Unknown'', cache_after = [''42.331,-83.046'' \<mapsto> ''Unknown''],
           requests = 1 \<rparr>
   \<and> getCityFromCoords [''42.331,-83.046'' \<mapsto> ''Unknown''] latB lonB detroit
       = \<lparr> place = ''Unknown'', cache_after = [''42.331,-83.046'' \<mapsto> ''Unknown''],
           requests = 0 \<rparr>"
proof -
  have p: "getCityFromCoords_prediction la lo detroit = (''Detroit, Michigan'', 1)" for la lo
    by (simp add: getCityFromCoords_prediction_def detroit_def addressField_def orStr_def)
  have a: "getCityFromCoords Map.empty latA lonA serverError
       = \<lparr> place = ''Unknown'', cache_after = [''42.331,-83.046'' \<mapsto> ''Unknown''],
           requests = 1 \<rparr>"
    by (simp add: getCityFromCoords_def keyA truthy_def serverError_def addressField_def
        orStr_def Let_def)
  have b: "getCityFromCoords [''42.331,-83.046'' \<mapsto> ''Unknown''] latB lonB detroit
       = \<lparr> place = ''Unknown'', cache_after = [''42.331,-83.046'' \<mapsto> ''Unknown''],
           requests = 0 \<rparr>"
    by (simp add: getCityFromCoords_def keyB truthy_def)
  have k: "cacheKey latA lonA = cacheKey latB lonB"
    by (simp only: keyA keyB)
  from k a b show ?thesis
    by (simp add: p)
qed

subsection \<open>Predictor failover\<close>

lemma fetchAbortable_bounded: "fst (fetchAbortable limit sv) \<le> limit"
  by (simp add: fetchAbortable_def split: server.splits)

lemma tryEndpoints_times: "\<forall>t \<in> set (fst (tryEndpoints net urls)). t \<le> 15000"
proof (induction urls)
  case Nil
  show ?case by simp
next
  case (Cons url urls)
  have b: "fst (fetchAbortable 15000 (net url)) \<le> 15000"
    by (rule fetchAbortable_bounded)
  show ?case
  proof (cases "fetchAbortable 15000 (net url)")
    case (Pair t r)
    with b have "t \<le> 15000" by simp
    with Cons Pair show ?thesis
      by (simp split: sum.splits prod.splits httpBody.splits)
  qed
qed

lemma tryEndpoints_length: "length (fst (tryEndpoints net urls)) \<le> length urls"
proof (induction urls)
  case Nil
  show ?case by simp
next
  case (Cons url urls)
  then show ?case
    by (cases "fetchAbortable 15000 (net url)")
      (simp split: sum.splits prod.splits httpBody.splits)
qed

lemma tryEndpoints_Cons_fail:
  "endpointFails net url \<Longrightarrow>
     snd (tryEndpoints net (url # urls)) = snd (tryEndpoints net urls)"
  by (cases "fetchAbortable 15000 (net url)")
    (auto simp: endpointFails_def split: sum.splits prod.splits httpBody.splits)

lemma tryEndpoints_Cons_ok:
  "\<not> endpointFails net url \<Longrightarrow> snd (tryEndpoints net (url # urls)) \<noteq> None"
  by (cases "fetchAbortable 15000 (net url)")
    (auto simp: endpointFails_def split: sum.splits prod.splits httpBody.splits)

lemma tryEndpoints_None_iff:
  "snd (tryEndpoints net urls) = None \<longleftrightarrow> (\<forall>url \<in> set urls. endpointFails net url)"
proof (induction urls)
  case Nil
  show ?case by simp
next
  case (Cons url urls)
  show ?case
  proof (cases "endpointFails net url")
    case True
    with Cons show ?thesis
      by (simp only: tryEndpoints_Cons_fail [OF True] list.set ball_simps) simp
  next
    case False
    with tryEndpoints_Cons_ok [OF False, of urls] show ?thesis
      by simp
  qed
qed

lemma callPredict_parts:
  "fetchTimes (callPredict apiBase net r1 r2) = fst (tryEndpoints net (endpoints apiBase))"
  "prediction (callPredict apiBase net r1 r2) =
     (case snd (tryEndpoints net (endpoints apiBase)) of
        Some p \<Rightarrow> p | None \<Rightarrow> mockPrediction r1 r2)"
  "predictAlerts (callPredict apiBase net r1 r2) =
     (case snd (tryEndpoints net (endpoints apiBase)) of
        Some p \<Rightarrow> [] | None \<Rightarrow> [serverUnavailable])"
  by (simp_all add: callPredict_def split: prod.splits option.splits)

lemma mock_index:
  assumes "0 \<le> r" "r < 1"
  shows "0 \<le> \<lfloor>r * of_nat (length mockSpecies)\<rfloor>"
    and "\<lfloor>r * of_nat (length mockSpecies)\<rfloor> < int (length mockSpecies)"
proof -
  have l: "length mockSpecies = 5" by (simp add: mockSpecies_def)
  from assms show "0 \<le> \<lfloor>r * of_nat (length mockSpecies)\<rfloor>"
    by (simp add: l)
  from assms have "r * 5 < 5" by simp
  then show "\<lfloor>r * of_nat (length mockSpecies)\<rfloor> < int (length mockSpecies)"
    by (simp add: l floor_less_iff)
qed

lemma mock_species:
  assumes "0 \<le> r1" "r1 < 1"
  shows "\<exists>s \<in> set mockSpecies. pr_species (mockPrediction r1 r2) = Some (FStr s)"
proof -
  let ?i = "\<lfloor>r1 * of_nat (length mockSpecies)\<rfloor>"
  from mock_index [OF assms] have i: "0 \<le> ?i" "?i < int (length mockSpecies)" .
  then have "nat ?i < length mockSpecies" by linarith
  then have "mockSpecies ! nat ?i \<in> set mockSpecies" by (rule nth_mem)
  moreover have "pr_species (mockPrediction r1 r2) = Some (FStr (mockSpecies ! nat ?i))"
    using i by (simp add: mockPrediction_def Let_def nthOpt_def speciesValue_def)
  ultimately show ?thesis by blast
qed

lemma mock_confidence:
  assumes "0 \<le> r2" "r2 < 1"
  shows "3 / 4 \<le> pr_confidence (mockPrediction r1 r2)"
    and "pr_confidence (mockPrediction r1 r2) < 95 / 100"
    and "length (pr_top3 (mockPrediction r1 r2)) = 3"
  using assms by (simp_all add: mockPrediction_def Let_def)

text \<open>
  C8: every request \<open>callPredict\<close> issues ends within 15000 ms, and at most two are
  issued; a server that never answers, or answers too late, gives the abort error at
  15000 ms. The \<open>Server Unavailable\<close> alert is shown exactly when every endpoint
  fails, and then the result is the mock prediction: for random draws in \<open>[0, 1)\<close> a
  species of the mock list, a confidence in \<open>[0.75, 0.95)\<close> and three top entries.
  \<open>callPredict\<close> has no error result.
\<close>

theorem C8_predict_bounded_failover:
  "(\<forall>t \<in> set (fetchTimes (callPredict apiBase net r1 r2)). t \<le> 15000)
   \<and> length (fetchTimes (callPredict apiBase net r1 r2)) \<le> 2
   \<and> fetchAbortable 15000 Never = (15000, Inl ''AbortError'')
   \<and> (\<forall>t r. 15000 \<le> t \<longrightarrow> fetchAbortable 15000 (After t r) = (15000, Inl ''AbortError''))
   \<and> ((\<forall>url \<in> set (endpoints apiBase). endpointFails net url) \<longleftrightarrow>
        predictAlerts (callPredict apiBase net r1 r2) = [serverUnavailable])
   \<and> ((\<forall>url \<in> set (endpoints apiBase). endpointFails net url) \<longrightarrow>
        prediction (callPredict apiBase net r1 r2) = mockPrediction r1 r2)
   \<and> (0 \<le> r1 \<and> r1 < 1 \<and> 0 \<le> r2 \<and> r2 < 1 \<longrightarrow>
        (\<exists>s \<in> set mockSpecies. pr_species (mockPrediction r1 r2) = Some (FStr s))
        \<and> 3 / 4 \<le> pr_confidence (mockPrediction r1 r2)
        \<and> pr_confidence (mockPrediction r1 r2) < 95 / 100
        \<and> length (pr_top3 (mockPrediction r1 r2)) = 3)"
proof (intro conjI allI impI)
  show "\<forall>t \<in> set (fetchTimes (callPredict apiBase net r1 r2)). t \<le> 15000"
    unfolding callPredict_parts(1) by (rule tryEndpoints_times)
  show "length (fetchTimes (callPredict apiBase net r1 r2)) \<le> 2"
    using tryEndpoints_length [of net "endpoints apiBase"]
    by (simp add: callPredict_parts(1) endpoints_def)
  show "fetchAbortable 15000 Never = (15000, Inl ''AbortError'')"
    by (simp add: fetchAbortable_def)
  show "fetchAbortable 15000 (After t r) = (15000, Inl ''AbortError'')" if "15000 \<le> t" for t r
    using that by (simp add: fetchAbortable_def)
  show "(\<forall>url \<in> set (endpoints apiBase). endpointFails net url) \<longleftrightarrow>
        predictAlerts (callPredict apiBase net r1 r2) = [serverUnavailable]"
    by (simp add: callPredict_parts(3) tryEndpoints_None_iff [symmetric] split: option.splits)
  show "prediction (callPredict apiBase net r1 r2) = mockPrediction r1 r2"
    if "\<forall>url \<in> set (endpoints apiBase). endpointFails net url"
    using that by (simp add: callPredict_parts(2) tryEndpoints_None_iff [symmetric])
next
  assume a: "0 \<le> r1 \<and> r1 < 1 \<and> 0 \<le> r2 \<and> r2 < 1"
  then show "\<exists>s \<in> set mockSpecies. pr_species (mockPrediction r1 r2) = Some (FStr s)"
    by (intro mock_species) simp_all
  from a show "3 / 4 \<le> pr_confidence (mockPrediction r1 r2)"
    by (intro mock_confidence(1)) simp_all
  from a show "pr_confidence (mockPrediction r1 r2) < 95 / 100"
    by (intro mock_confidence(2)) simp_all
  from a show "length (pr_top3 (mockPrediction r1 r2)) = 3"
    by (intro mock_confidence(3)) simp_all
qed

lemma mock_fields:
  "pr_species (mockPrediction r1 r2)
     = speciesValue (nthOpt mockSpecies \<lfloor>r1 * of_nat (length mockSpecies)\<rfloor>)"
  "pr_confidence (mockPrediction r1 r2) = 75 / 100 + r2 * (2 / 10)"
  by (simp_all add: mockPrediction_def Let_def)

lemma mock_index_half: "\<lfloor>(1 / 2 :: rat) * of_nat (length mockSpecies)\<rfloor> = 2"
  by (simp add: mockSpecies_def floor_eq_iff)

lemma mock_third: "speciesValue (nthOpt mockSpecies 2) = Some (FStr ''American Toad'')"
  by (simp add: nthOpt_def mockSpecies_def speciesValue_def)

lemma deadNet_fails:
  "endpointFails deadNet ''http://10.0.0.2:8000/predict''"
  "endpointFails deadNet ''http://10.0.0.2:8000/ml/predict''"
  by (simp_all add: endpointFails_def deadNet_def fetchAbortable_def)

theorem C8_predict_bounded_failover_witness:
  "predictAlerts (callPredict ''http://10.0.0.2:8000'' deadNet (1 / 2) (1 / 2)) = [serverUnavailable]
   \<and> pr_species (prediction (callPredict ''http://10.0.0.2:8000'' deadNet (1 / 2) (1 / 2)))
       = Some (FStr ''American Toad'')
   \<and> pr_confidence (prediction (callPredict ''http://10.0.0.2:8000'' deadNet (1 / 2) (1 / 2)))
       = 17 / 20
   \<and> fst (fetchAbortable 15000 (deadNet ''http://10.0.0.2:8000/predict'')) = 15000"
proof -
  note t = C8_predict_bounded_failover [of "''http://10.0.0.2:8000''" deadNet "1 / 2" "1 / 2"]
  have f: "\<forall>url \<in> set (endpoints ''http://10.0.0.2:8000''). endpointFails deadNet url"
    by (simp add: endpoints_def deadNet_fails)
  have a: "predictAlerts (callPredict ''http://10.0.0.2:8000'' deadNet (1 / 2) (1 / 2))
      = [serverUnavailable]"
    using t [THEN conjunct2, THEN conjunct2, THEN conjunct2, THEN conjunct2, THEN conjunct1] f
    by (rule iffD1)
  have p: "prediction (callPredict ''http://10.0.0.2:8000'' deadNet (1 / 2) (1 / 2))
      = mockPrediction (1 / 2) (1 / 2)"
    using f
    by (rule t [THEN conjunct2, THEN conjunct2, THEN conjunct2, THEN conjunct2, THEN conjunct2,
          THEN conjunct1, THEN mp])
  have m: "pr_species (mockPrediction (1 / 2) (1 / 2)) = Some (FStr ''American Toad'')"
    "pr_confidence (mockPrediction (1 / 2) (1 / 2)) = 17 / 20"
    by (simp_all only: mock_fields mock_index_half mock_third)
  have n: "fst (fetchAbortable 15000 (deadNet ''http://10.0.0.2:8000/predict'')) = 15000"
    by (simp add: deadNet_def t [THEN conjunct2, THEN conjunct2, THEN conjunct1])
  from a p m n show ?thesis by simp
qed

end
